theory Spec2Isabelle
  imports Complex_Main
begin

section \<open>Arrays, errors and the numpy operations used by nn.py\<close>

text \<open>
  The engine works on numpy arrays of two shapes only: column vectors (shape \<open>n \<times> 1\<close>)
  and weight matrices (shape \<open>outs \<times> ins\<close>). A column vector is the list of its entries, a
  matrix the list of its rows. Entries are real numbers: float64 rounding, overflow and
  the special values inf and nan are not modelled here, with one exception, the mean of an
  empty array, which numpy returns as nan and which is \<open>None\<close>. The section on float64
  arithmetic models the loss functions again with rounding, for the claims that rounding
  decides.

  A raised exception is \<open>Inl\<close> of the error; \<open>ebind\<close> propagates it the way an
  uncaught exception leaves the enclosing function.
\<close>

type_synonym vec = "real list"
type_synonym mat = "real list list"

datatype error = ValueError | IndexError | ZeroDivisionError | TypeError

definition ebind :: "error + 'a \<Rightarrow> ('a \<Rightarrow> error + 'b) \<Rightarrow> error + 'b" where
  "ebind m k = (case m of Inl e \<Rightarrow> Inl e | Inr v \<Rightarrow> k v)"

definition dot_row :: "real list \<Rightarrow> vec \<Rightarrow> real" where
  "dot_row r x = sum_list (map2 (*) r x)"

text \<open>\<open>np.dot(A, x)\<close> for a matrix and a column vector: the number of columns of \<open>A\<close>
  must be the number of rows of \<open>x\<close>, otherwise numpy raises ValueError.\<close>

definition np_dot :: "mat \<Rightarrow> vec \<Rightarrow> error + vec" where
  "np_dot A x =
     (if list_all (\<lambda>r. length r = length x) A then Inr (map (\<lambda>r. dot_row r x) A)
      else Inl ValueError)"

text \<open>\<open>A.T\<close>: the transpose of a matrix with at least one row.\<close>

definition np_T :: "mat \<Rightarrow> mat" where
  "np_T A = (if A = [] then [] else map (\<lambda>j. map (\<lambda>r. r ! j) A) [0..<length (hd A)])"

text \<open>\<open>np.dot(db, x.T)\<close> for two column vectors: the \<open>n \<times> 1\<close> by \<open>1 \<times> m\<close> product, which
  always has matching inner dimension.\<close>

definition np_outer :: "vec \<Rightarrow> vec \<Rightarrow> mat" where
  "np_outer d x = map (\<lambda>di. map (\<lambda>xj. di * xj) x) d"

text \<open>An elementwise binary operation on two column vectors, with numpy's broadcasting:
  equal lengths combine entry by entry, a vector of one entry is stretched to the length of
  the other, and any other pair of lengths raises ValueError.\<close>

definition np_bcast :: "(real \<Rightarrow> real \<Rightarrow> real) \<Rightarrow> vec \<Rightarrow> vec \<Rightarrow> error + vec" where
  "np_bcast g u v =
     (if length u = length v then Inr (map2 g u v)
      else if length u = 1 then Inr (map (g (hd u)) v)
      else if length v = 1 then Inr (map (\<lambda>a. g a (hd v)) u)
      else Inl ValueError)"

text \<open>The in-place \<open>u -= v\<close> on column vectors: \<open>v\<close> is broadcast to the shape of \<open>u\<close>,
  never the other way round.\<close>

definition np_isub :: "vec \<Rightarrow> vec \<Rightarrow> error + vec" where
  "np_isub u v =
     (if length v = length u then Inr (map2 (-) u v)
      else if length v = 1 then Inr (map (\<lambda>a. a - hd v) u)
      else Inl ValueError)"

text \<open>The in-place \<open>A -= B\<close> on matrices of the same shape. (In \<open>train\<close> the operand
  \<open>B\<close> is \<open>lr * dW\<close>, which has the shape of \<open>A\<close> whenever the two products before it
  succeeded, so broadcasting never applies there.)\<close>

definition np_isub_mat :: "mat \<Rightarrow> mat \<Rightarrow> error + mat" where
  "np_isub_mat A B =
     (if length A = length B \<and> list_all2 (\<lambda>r s. length r = length s) A B
      then Inr (map2 (map2 (-)) A B)
      else Inl ValueError)"

definition scale_vec :: "real \<Rightarrow> vec \<Rightarrow> vec" where
  "scale_vec c v = map ((*) c) v"

definition scale_mat :: "real \<Rightarrow> mat \<Rightarrow> mat" where
  "scale_mat c A = map (scale_vec c) A"

text \<open>\<open>np.mean\<close>: nan (here \<open>None\<close>) on an empty array.\<close>

definition np_mean :: "vec \<Rightarrow> real option" where
  "np_mean v = (if v = [] then None else Some (sum_list v / real (length v)))"

text \<open>\<open>values[i, 0]\<close>: Python indexing, a negative index counts from the end, an index out
  of range raises IndexError.\<close>

definition np_index :: "vec \<Rightarrow> int \<Rightarrow> error + nat" where
  "np_index values i =
     (let n = int (length values); j = (if i < 0 then n + i else i)
      in if 0 \<le> j \<and> j < n then Inr (nat j) else Inl IndexError)"

definition math_log :: "real \<Rightarrow> error + real" where
  "math_log v = (if v \<le> 0 then Inl ValueError else Inr (ln v))"

section \<open>Activation functions\<close>

datatype ActivationFunction =
  Id_act | ELU real | LeakyReLU real | Sigmoid | Tanh | ArcTan


text \<open>\<open>ELU.f\<close> first builds \<open>out = alpha * (exp(x) - 1)\<close> and then overwrites the entries
  at the positions where \<open>x > 0\<close> with those of \<open>x\<close>.\<close>

fun act_f :: "ActivationFunction \<Rightarrow> vec \<Rightarrow> vec" where
  "act_f Id_act x = x"
| "act_f (ELU alpha) x =
     (let out = map (\<lambda>v. alpha * (exp v - 1)) x
      in map2 (\<lambda>e v. if v > 0 then v else e) out x)"
| "act_f (LeakyReLU alpha) x = map2 max x (map (\<lambda>v. v * alpha) x)"
| "act_f Sigmoid x = map (\<lambda>v. 1 / (1 + exp (- v))) x"
| "act_f Tanh x = map tanh x"
| "act_f ArcTan x = map arctan x"

text \<open>In \<open>df\<close> the comparisons \<open>x >= 0\<close>, \<open>x < 0\<close> and \<open>x > 0\<close> are boolean arrays, which
  \<open>np.maximum\<close> and \<open>*\<close> read as 1 and 0.\<close>

fun act_df :: "ActivationFunction \<Rightarrow> vec \<Rightarrow> vec" where
  "act_df Id_act x = replicate (length x) 1"
| "act_df (ELU alpha) x =
     map (\<lambda>v. max (of_bool (v \<ge> 0)) (alpha * of_bool (v < 0) * exp v)) x"
| "act_df (LeakyReLU alpha) x = map (\<lambda>v. max (of_bool (v > 0)) alpha) x"
| "act_df Sigmoid x =
     map2 (*) (act_f Sigmoid x) (map (\<lambda>s. 1 - s) (act_f Sigmoid x))"
| "act_df Tanh x = map (\<lambda>s. 1 - s ^ 2) (act_f Tanh x)"
| "act_df ArcTan x = map (\<lambda>v. 1 / (1 + v ^ 2)) x"

section \<open>Loss functions\<close>

datatype LossFunction = MSELoss | CrossEntropyLoss

text \<open>The second argument of \<open>loss\<close>, \<open>dloss\<close> and \<open>train\<close> is untyped in the source: the
  mean squared error is given a column vector, the cross-entropy an integer class index.\<close>

datatype target = TVec vec | TIdx int

text \<open>\<open>values - expected\<close>: an integer is broadcast over the whole vector.\<close>

definition np_sub :: "vec \<Rightarrow> target \<Rightarrow> error + vec" where
  "np_sub values expected =
     (case expected of
        TVec e \<Rightarrow> np_bcast (-) values e
      | TIdx k \<Rightarrow> Inr (map (\<lambda>v. v - real_of_int k) values))"

definition MSELoss_loss :: "vec \<Rightarrow> target \<Rightarrow> error + real option" where
  "MSELoss_loss values expected =
     ebind (np_sub values expected) (\<lambda>d. Inr (np_mean (map (\<lambda>v. v ^ 2) d)))"

definition MSELoss_dloss :: "vec \<Rightarrow> target \<Rightarrow> error + vec" where
  "MSELoss_dloss values expected =
     ebind (np_sub values expected)
       (\<lambda>d. Inr (map (\<lambda>v. 2 * v / real (length values)) d))"

text \<open>Indexing with an array of floats raises IndexError.\<close>

definition CrossEntropyLoss_loss :: "vec \<Rightarrow> target \<Rightarrow> error + real option" where
  "CrossEntropyLoss_loss values expected =
     (case expected of
        TVec e \<Rightarrow> Inl IndexError
      | TIdx i \<Rightarrow>
          ebind (np_index values i) (\<lambda>k.
          ebind (math_log (sum_list (map exp values))) (\<lambda>l.
            Inr (Some (- (values ! k) + l)))))"

definition CrossEntropyLoss_dloss :: "vec \<Rightarrow> target \<Rightarrow> error + vec" where
  "CrossEntropyLoss_dloss values expected =
     (let d = map (\<lambda>v. exp v / sum_list (map exp values)) values
      in case expected of
           TVec e \<Rightarrow> Inl IndexError
         | TIdx i \<Rightarrow> ebind (np_index values i) (\<lambda>k. Inr (d[k := d ! k - 1])))"

fun loss_fn :: "LossFunction \<Rightarrow> vec \<Rightarrow> target \<Rightarrow> error + real option" where
  "loss_fn MSELoss values expected = MSELoss_loss values expected"
| "loss_fn CrossEntropyLoss values expected = CrossEntropyLoss_loss values expected"

fun dloss_fn :: "LossFunction \<Rightarrow> vec \<Rightarrow> target \<Rightarrow> error + vec" where
  "dloss_fn MSELoss values expected = MSELoss_dloss values expected"
| "dloss_fn CrossEntropyLoss values expected = CrossEntropyLoss_dloss values expected"

section \<open>Layers\<close>

text \<open>The fields \<open>_W\<close> and \<open>_b\<close> of the source are \<open>layer_W\<close> and \<open>layer_b\<close>.\<close>

record Layer =
  ins :: nat
  outs :: nat
  act_function :: ActivationFunction
  layer_W :: mat
  layer_b :: vec

text \<open>\<open>Layer.__init__\<close> draws the entries of \<open>_W\<close> and \<open>_b\<close> from \<open>np.random.normal\<close>;
  the draws are the parameters \<open>gW\<close> and \<open>gb\<close>. The scale \<open>1/(nrows*ncols)\<close> of
  \<open>create_weight_matrix\<close> and \<open>1/length\<close> of \<open>create_bias_vector\<close> raise
  ZeroDivisionError when a width is 0.\<close>

definition create_weight_matrix :: "(nat \<Rightarrow> nat \<Rightarrow> real) \<Rightarrow> nat \<Rightarrow> nat \<Rightarrow> error + mat" where
  "create_weight_matrix gW nrows ncols =
     (if nrows * ncols = 0 then Inl ZeroDivisionError
      else Inr (map (\<lambda>i. map (\<lambda>j. gW i j) [0..<ncols]) [0..<nrows]))"

definition create_bias_vector :: "(nat \<Rightarrow> real) \<Rightarrow> nat \<Rightarrow> error + vec" where
  "create_bias_vector gb len =
     (if len = 0 then Inl ZeroDivisionError else Inr (map gb [0..<len]))"

definition Layer_init ::
  "(nat \<Rightarrow> nat \<Rightarrow> real) \<Rightarrow> (nat \<Rightarrow> real) \<Rightarrow> nat \<Rightarrow> nat \<Rightarrow> ActivationFunction \<Rightarrow> error + Layer" where
  "Layer_init gW gb i n a =
     ebind (create_weight_matrix gW n i) (\<lambda>Wm.
     ebind (create_bias_vector gb n) (\<lambda>bv.
       Inr \<lparr>ins = i, outs = n, act_function = a, layer_W = Wm, layer_b = bv\<rparr>))"

text \<open>The shapes every constructed layer has, and keeps: \<open>_W\<close> is \<open>outs \<times> ins\<close>, \<open>_b\<close> is
  \<open>outs \<times> 1\<close>, and both widths are positive.\<close>

definition wf_layer :: "Layer \<Rightarrow> bool" where
  "wf_layer l \<longleftrightarrow>
     0 < ins l \<and> 0 < outs l \<and> length (layer_W l) = outs l \<and>
     list_all (\<lambda>r. length r = ins l) (layer_W l) \<and> length (layer_b l) = outs l"

definition Layer_forward_pass :: "Layer \<Rightarrow> vec \<Rightarrow> error + vec" where
  "Layer_forward_pass self x =
     ebind (np_dot (layer_W self) x) (\<lambda>wx.
     ebind (np_bcast (+) wx (layer_b self)) (\<lambda>y.
       Inr (act_f (act_function self) y)))"

section \<open>Networks\<close>

text \<open>The fields \<open>_layers\<close>, \<open>_loss_function\<close> and \<open>lr\<close> of the source. The layers of a
  network are distinct objects, each owning its two arrays, so a network is the list of
  their values.\<close>

record NeuralNetwork =
  net_layers :: "Layer list"
  net_loss_function :: LossFunction
  net_lr :: real

text \<open>The compatibility loop of \<open>NeuralNetwork.__init__\<close> over
  \<open>zip(layers[:-1], layers[1:])\<close>.\<close>

fun check_compat :: "(Layer \<times> Layer) list \<Rightarrow> error + unit" where
  "check_compat [] = Inr ()"
| "check_compat ((from_l, to_l) # rest) =
     (if outs from_l \<noteq> ins to_l then Inl ValueError else check_compat rest)"

definition NeuralNetwork_init ::
  "Layer list \<Rightarrow> LossFunction \<Rightarrow> real \<Rightarrow> error + NeuralNetwork" where
  "NeuralNetwork_init ls lf rate =
     ebind (check_compat (zip (butlast ls) (tl ls))) (\<lambda>_.
       Inr \<lparr>net_layers = ls, net_loss_function = lf, net_lr = rate\<rparr>)"

fun forward_loop :: "Layer list \<Rightarrow> vec \<Rightarrow> error + vec" where
  "forward_loop [] out = Inr out"
| "forward_loop (layer # rest) out =
     ebind (Layer_forward_pass layer out) (\<lambda>out'. forward_loop rest out')"

definition forward_pass :: "NeuralNetwork \<Rightarrow> vec \<Rightarrow> error + vec" where
  "forward_pass self x = forward_loop (net_layers self) x"


text \<open>The first loop of \<open>train\<close>: \<open>xs.append(layer.forward_pass(xs[-1]))\<close>.\<close>

fun forward_sweep :: "Layer list \<Rightarrow> vec list \<Rightarrow> error + vec list" where
  "forward_sweep [] xs = Inr xs"
| "forward_sweep (layer # rest) xs =
     ebind (Layer_forward_pass layer (last xs)) (\<lambda>out. forward_sweep rest (xs @ [out]))"

text \<open>One iteration of the second loop of \<open>train\<close>, on one layer and its recorded input:
  the layer with its parameters updated, and the \<open>dx\<close> for the next iteration.\<close>

definition backward_step :: "real \<Rightarrow> Layer \<Rightarrow> vec \<Rightarrow> vec \<Rightarrow> error + (Layer \<times> vec)" where
  "backward_step rate layer x dx =
     ebind (np_dot (layer_W layer) x) (\<lambda>wx.
     ebind (np_bcast (+) wx (layer_b layer)) (\<lambda>y.
     ebind (np_bcast (*) (act_df (act_function layer) y) dx) (\<lambda>db.
     ebind (np_dot (np_T (layer_W layer)) db) (\<lambda>dx'.
     let dW = np_outer db x in
     ebind (np_isub_mat (layer_W layer) (scale_mat rate dW)) (\<lambda>W'.
     ebind (np_isub (layer_b layer) (scale_vec rate db)) (\<lambda>b'.
       Inr (layer\<lparr>layer_W := W', layer_b := b'\<rparr>, dx')))))))"

text \<open>The second loop, over \<open>zip(self._layers[::-1], xs[::-1])\<close>. It returns the updated
  layers in the order it visits them, last layer first.\<close>

fun backward_sweep :: "real \<Rightarrow> (Layer \<times> vec) list \<Rightarrow> vec \<Rightarrow> error + Layer list" where
  "backward_sweep rate [] dx = Inr []"
| "backward_sweep rate ((layer, x) # rest) dx =
     ebind (backward_step rate layer x dx) (\<lambda>(layer', dx').
     ebind (backward_sweep rate rest dx') (\<lambda>rest'.
       Inr (layer' # rest')))"

text \<open>\<open>train\<close> returns nothing; its effect is the mutation of the layers, so the model
  returns the network after the call. \<open>xs.pop()\<close> removes and returns the last recorded
  value.\<close>

definition train :: "NeuralNetwork \<Rightarrow> vec \<Rightarrow> target \<Rightarrow> error + NeuralNetwork" where
  "train self x t =
     ebind (forward_sweep (net_layers self) [x]) (\<lambda>xs.
     ebind (dloss_fn (net_loss_function self) (last xs) t) (\<lambda>dx.
     ebind (backward_sweep (net_lr self) (zip (rev (net_layers self)) (rev (butlast xs))) dx)
       (\<lambda>updated. Inr (self\<lparr>net_layers := rev updated\<rparr>))))"

section \<open>The network on a store of arrays\<close>

text \<open>
  numpy arrays are mutable objects, and \<open>train\<close> and \<open>ELU.f\<close> write into arrays in place.
  To state what a method leaves unchanged, the methods of \<open>Layer\<close> and \<open>NeuralNetwork\<close>
  are modelled once more on a store: an array lives at an address, a layer object holds
  the addresses of its \<open>_W\<close> and \<open>_b\<close>, every numpy operation that returns a new array
  allocates it at the next free address, and an in-place assignment overwrites the array
  at its address. (Temporaries that no variable keeps, such as \<open>np.exp(x)\<close>, are not
  stored.) An operation is a function from the store to its result, or the exception it
  raises, and the store after it. No method of the source assigns to an attribute of a
  layer or of the network after construction, so the objects themselves are values.
\<close>

datatype ndarray = Vec vec | Mat mat

type_synonym store = "ndarray list"

type_synonym 'a on_store = "store \<Rightarrow> (error + 'a) \<times> store"

definition sreturn :: "'a \<Rightarrow> 'a on_store" where
  "sreturn v h = (Inr v, h)"

definition sraise :: "error \<Rightarrow> 'a on_store" where
  "sraise e h = (Inl e, h)"

definition sbind :: "'a on_store \<Rightarrow> ('a \<Rightarrow> 'b on_store) \<Rightarrow> 'b on_store" where
  "sbind m k h = (case m h of (Inl e, h') \<Rightarrow> (Inl e, h') | (Inr v, h') \<Rightarrow> k v h')"

definition lift_result :: "error + 'a \<Rightarrow> 'a on_store" where
  "lift_result r = (case r of Inl e \<Rightarrow> sraise e | Inr v \<Rightarrow> sreturn v)"

definition new_array :: "ndarray \<Rightarrow> nat on_store" where
  "new_array a h = (Inr (length h), h @ [a])"

text \<open>Reading the array at an address as a column vector or as a matrix; an address that
  holds no array of that kind is not a value the Python program can have, and is an error
  here.\<close>

definition get_vec :: "nat \<Rightarrow> vec on_store" where
  "get_vec a h =
     (if a < length h then (case h ! a of Vec v \<Rightarrow> (Inr v, h) | Mat M \<Rightarrow> (Inl TypeError, h))
      else (Inl TypeError, h))"

definition get_mat :: "nat \<Rightarrow> mat on_store" where
  "get_mat a h =
     (if a < length h then (case h ! a of Mat M \<Rightarrow> (Inr M, h) | Vec v \<Rightarrow> (Inl TypeError, h))
      else (Inl TypeError, h))"

definition set_array :: "nat \<Rightarrow> ndarray \<Rightarrow> unit on_store" where
  "set_array a v h = (Inr (), h[a := v])"

record LayerObj =
  obj_ins :: nat
  obj_outs :: nat
  obj_act_function :: ActivationFunction
  obj_W :: nat
  obj_b :: nat

record NetworkObj =
  obj_layers :: "LayerObj list"
  obj_loss_function :: LossFunction
  obj_lr :: real

text \<open>\<open>np.dot(self._W, x)\<close> and \<open>\<dots> + self._b\<close>: each returns a new array.\<close>

definition s_np_dot :: "nat \<Rightarrow> nat \<Rightarrow> nat on_store" where
  "s_np_dot A x =
     sbind (get_mat A) (\<lambda>M. sbind (get_vec x) (\<lambda>v.
     sbind (lift_result (np_dot M v)) (\<lambda>r. new_array (Vec r))))"

definition s_np_add :: "nat \<Rightarrow> nat \<Rightarrow> nat on_store" where
  "s_np_add u v =
     sbind (get_vec u) (\<lambda>a. sbind (get_vec v) (\<lambda>b.
     sbind (lift_result (np_bcast (+) a b)) (\<lambda>r. new_array (Vec r))))"

text \<open>The method \<open>f\<close> of each activation function. \<open>Id.f\<close> returns its argument, the same
  object. \<open>ELU.f\<close> allocates \<open>out\<close> and then assigns into it in place
  (\<open>out[x > 0] = x[x > 0]\<close>). The others return one new array.\<close>

fun s_act_f :: "ActivationFunction \<Rightarrow> nat \<Rightarrow> nat on_store" where
  "s_act_f Id_act x = sreturn x"
| "s_act_f (ELU alpha) x =
     sbind (get_vec x) (\<lambda>v.
     sbind (new_array (Vec (map (\<lambda>u. alpha * (exp u - 1)) v))) (\<lambda>out.
     sbind (get_vec out) (\<lambda>w.
     sbind (set_array out (Vec (map2 (\<lambda>e u. if u > 0 then u else e) w v))) (\<lambda>_.
       sreturn out))))"
| "s_act_f a x = sbind (get_vec x) (\<lambda>v. new_array (Vec (act_f a v)))"

definition s_Layer_forward_pass :: "LayerObj \<Rightarrow> nat \<Rightarrow> nat on_store" where
  "s_Layer_forward_pass self x =
     sbind (s_np_dot (obj_W self) x) (\<lambda>wx.
     sbind (s_np_add wx (obj_b self)) (\<lambda>y.
       s_act_f (obj_act_function self) y))"

fun s_forward_loop :: "LayerObj list \<Rightarrow> nat \<Rightarrow> nat on_store" where
  "s_forward_loop [] out = sreturn out"
| "s_forward_loop (layer # rest) out =
     sbind (s_Layer_forward_pass layer out) (\<lambda>out'. s_forward_loop rest out')"

definition s_forward_pass :: "NetworkObj \<Rightarrow> nat \<Rightarrow> nat on_store" where
  "s_forward_pass self x = s_forward_loop (obj_layers self) x"

text \<open>\<open>loss\<close> reads \<open>values\<close> and returns a number; the target is passed by value.\<close>

definition s_loss :: "NetworkObj \<Rightarrow> nat \<Rightarrow> target \<Rightarrow> (real option) on_store" where
  "s_loss self values expected =
     sbind (get_vec values) (\<lambda>v. lift_result (loss_fn (obj_loss_function self) v expected))"

text \<open>\<open>train\<close>. Its products and the derivative \<open>df(y)\<close> are new arrays; the two
  statements \<open>layer._W -= self.lr * dW\<close> and \<open>layer._b -= self.lr * db\<close> overwrite the
  arrays of the layer where they are.\<close>

definition s_np_mul :: "nat \<Rightarrow> nat \<Rightarrow> nat on_store" where
  "s_np_mul u v =
     sbind (get_vec u) (\<lambda>a. sbind (get_vec v) (\<lambda>b.
     sbind (lift_result (np_bcast (*) a b)) (\<lambda>r. new_array (Vec r))))"

definition s_act_df :: "ActivationFunction \<Rightarrow> nat \<Rightarrow> nat on_store" where
  "s_act_df a y = sbind (get_vec y) (\<lambda>v. new_array (Vec (act_df a v)))"

definition s_dloss :: "LossFunction \<Rightarrow> nat \<Rightarrow> target \<Rightarrow> nat on_store" where
  "s_dloss lf values expected =
     sbind (get_vec values) (\<lambda>v.
     sbind (lift_result (dloss_fn lf v expected)) (\<lambda>d. new_array (Vec d)))"

fun s_forward_sweep :: "LayerObj list \<Rightarrow> nat list \<Rightarrow> (nat list) on_store" where
  "s_forward_sweep [] xs = sreturn xs"
| "s_forward_sweep (layer # rest) xs =
     sbind (s_Layer_forward_pass layer (last xs)) (\<lambda>out. s_forward_sweep rest (xs @ [out]))"

definition s_backward_step :: "real \<Rightarrow> LayerObj \<Rightarrow> nat \<Rightarrow> nat \<Rightarrow> nat on_store" where
  "s_backward_step rate layer x dx =
     sbind (s_np_dot (obj_W layer) x) (\<lambda>wx.
     sbind (s_np_add wx (obj_b layer)) (\<lambda>y.
     sbind (s_act_df (obj_act_function layer) y) (\<lambda>d.
     sbind (s_np_mul d dx) (\<lambda>db.
     sbind (get_mat (obj_W layer)) (\<lambda>Wm.
     sbind (get_vec db) (\<lambda>dbv.
     sbind (lift_result (np_dot (np_T Wm) dbv)) (\<lambda>r.
     sbind (new_array (Vec r)) (\<lambda>dx'.
     sbind (get_vec x) (\<lambda>xv.
     sbind (new_array (Mat (np_outer dbv xv))) (\<lambda>dW.
     sbind (lift_result (np_isub_mat Wm (scale_mat rate (np_outer dbv xv)))) (\<lambda>W'.
     sbind (set_array (obj_W layer) (Mat W')) (\<lambda>_.
     sbind (get_vec (obj_b layer)) (\<lambda>bv.
     sbind (lift_result (np_isub bv (scale_vec rate dbv))) (\<lambda>b'.
     sbind (set_array (obj_b layer) (Vec b')) (\<lambda>_.
       sreturn dx')))))))))))))))"

fun s_backward_sweep :: "real \<Rightarrow> (LayerObj \<times> nat) list \<Rightarrow> nat \<Rightarrow> unit on_store" where
  "s_backward_sweep rate [] dx = sreturn ()"
| "s_backward_sweep rate ((layer, x) # rest) dx =
     sbind (s_backward_step rate layer x dx) (\<lambda>dx'. s_backward_sweep rate rest dx')"

definition s_train :: "NetworkObj \<Rightarrow> nat \<Rightarrow> target \<Rightarrow> unit on_store" where
  "s_train self x t =
     sbind (s_forward_sweep (obj_layers self) [x]) (\<lambda>xs.
     sbind (s_dloss (obj_loss_function self) (last xs) t) (\<lambda>dx.
       s_backward_sweep (obj_lr self) (zip (rev (obj_layers self)) (rev (butlast xs))) dx))"

text \<open>The layer, as a value, that a layer object stands for in a store.\<close>

definition layer_in :: "store \<Rightarrow> LayerObj \<Rightarrow> Layer option" where
  "layer_in h obj =
     (if obj_W obj < length h \<and> obj_b obj < length h then
        (case (h ! obj_W obj, h ! obj_b obj) of
           (Mat M, Vec v) \<Rightarrow>
             Some \<lparr>ins = obj_ins obj, outs = obj_outs obj,
                   act_function = obj_act_function obj, layer_W = M, layer_b = v\<rparr>
         | _ \<Rightarrow> None)
      else None)"

text \<open>The store \<open>h'\<close> extends \<open>h\<close>: every array of \<open>h\<close> is at its address in \<open>h'\<close>,
  unchanged.\<close>

definition extends :: "store \<Rightarrow> store \<Rightarrow> bool" where
  "extends h h' \<longleftrightarrow> take (length h) h' = h"

section \<open>float64 arithmetic\<close>

text \<open>
  numpy computes in IEEE 754 binary64. For the claims that depend on rounding, the loss
  functions and the training step are modelled a second time with that arithmetic. A
  float64 is a finite number \<open>m \<cdot> 2\<^sup>e\<close> with \<open>|m| < 2\<^sup>5\<^sup>3\<close> and \<open>-1074 \<le> e \<le> 971\<close>, an
  infinity, or nan. Every operation rounds its exact result to the nearest float64, ties
  to the even significand, and a result beyond the largest finite number becomes an
  infinity. The functions \<open>exp\<close>, \<open>log\<close>, \<open>tanh\<close> and \<open>arctan\<close> are taken as correctly
  rounded. The sign of a zero is not modelled: it shows only in a division by zero, and
  every zero divisor that nn.py can meet (an array size, a sum of exponentials) is \<open>+0\<close>.
\<close>

datatype float64 = Finite real | PInf | NInf | NaN

text \<open>The integer nearest to \<open>q\<close>, the even one of the two when \<open>q\<close> is half-way.\<close>

definition rne :: "real \<Rightarrow> int" where
  "rne q =
     (let n = \<lfloor>q\<rfloor>; d = q - of_int n
      in if d < 1/2 then n else if 1/2 < d then n + 1 else if even n then n else n + 1)"

text \<open>The exponent of the unit in the last place of a number \<open>x \<noteq> 0\<close>: 52 below the
  exponent of \<open>x\<close>, and \<open>-1074\<close> for the subnormal numbers.\<close>

definition ulp_exponent :: "real \<Rightarrow> int" where
  "ulp_exponent x = max \<lfloor>log 2 \<bar>x\<bar>\<rfloor> (-1022) - 52"

definition round_real :: "real \<Rightarrow> real" where
  "round_real x =
     (if x = 0 then 0
      else of_int (rne (x / 2 powi ulp_exponent x)) * 2 powi ulp_exponent x)"

definition max_float :: real where
  "max_float = (2 ^ 53 - 1) * 2 ^ 971"

definition round64 :: "real \<Rightarrow> float64" where
  "round64 x =
     (let r = round_real x
      in if max_float < r then PInf else if r < - max_float then NInf else Finite r)"

fun fneg :: "float64 \<Rightarrow> float64" where
  "fneg (Finite x) = Finite (- x)"
| "fneg PInf = NInf"
| "fneg NInf = PInf"
| "fneg NaN = NaN"

fun fadd :: "float64 \<Rightarrow> float64 \<Rightarrow> float64" where
  "fadd (Finite x) (Finite y) = round64 (x + y)"
| "fadd NaN b = NaN"
| "fadd a NaN = NaN"
| "fadd PInf NInf = NaN"
| "fadd NInf PInf = NaN"
| "fadd PInf b = PInf"
| "fadd a PInf = PInf"
| "fadd NInf b = NInf"
| "fadd a NInf = NInf"

definition fsub :: "float64 \<Rightarrow> float64 \<Rightarrow> float64" where
  "fsub a b = fadd a (fneg b)"

text \<open>The sign of an infinite product or quotient.\<close>

definition signed_inf :: "bool \<Rightarrow> float64" where
  "signed_inf positive = (if positive then PInf else NInf)"

fun fmul :: "float64 \<Rightarrow> float64 \<Rightarrow> float64" where
  "fmul (Finite x) (Finite y) = round64 (x * y)"
| "fmul NaN b = NaN"
| "fmul a NaN = NaN"
| "fmul (Finite x) PInf = (if x = 0 then NaN else signed_inf (0 < x))"
| "fmul (Finite x) NInf = (if x = 0 then NaN else signed_inf (x < 0))"
| "fmul PInf (Finite y) = (if y = 0 then NaN else signed_inf (0 < y))"
| "fmul NInf (Finite y) = (if y = 0 then NaN else signed_inf (y < 0))"
| "fmul PInf PInf = PInf"
| "fmul NInf NInf = PInf"
| "fmul PInf NInf = NInf"
| "fmul NInf PInf = NInf"

fun fdiv :: "float64 \<Rightarrow> float64 \<Rightarrow> float64" where
  "fdiv (Finite x) (Finite y) =
     (if y = 0 then (if x = 0 then NaN else signed_inf (0 < x)) else round64 (x / y))"
| "fdiv NaN b = NaN"
| "fdiv a NaN = NaN"
| "fdiv (Finite x) PInf = Finite 0"
| "fdiv (Finite x) NInf = Finite 0"
| "fdiv PInf (Finite y) = signed_inf (0 \<le> y)"
| "fdiv NInf (Finite y) = signed_inf (y < 0)"
| "fdiv PInf b = NaN"
| "fdiv NInf b = NaN"

fun fexp :: "float64 \<Rightarrow> float64" where
  "fexp (Finite x) = round64 (exp x)"
| "fexp PInf = PInf"
| "fexp NInf = Finite 0"
| "fexp NaN = NaN"

text \<open>\<open>math.log\<close> raises ValueError on zero and on negative numbers.\<close>

fun f64_math_log :: "float64 \<Rightarrow> error + float64" where
  "f64_math_log (Finite x) = (if x \<le> 0 then Inl ValueError else Inr (round64 (ln x)))"
| "f64_math_log PInf = Inr PInf"
| "f64_math_log NInf = Inl ValueError"
| "f64_math_log NaN = Inr NaN"

text \<open>\<open>np.sum\<close>, adding in the order of the entries. (numpy adds the entries of an array
  of eight or more in another order.)\<close>

definition f64_np_sum :: "float64 list \<Rightarrow> float64" where
  "f64_np_sum v = foldl fadd (Finite 0) v"

definition f64_np_bcast ::
  "(float64 \<Rightarrow> float64 \<Rightarrow> float64) \<Rightarrow> float64 list \<Rightarrow> float64 list \<Rightarrow> error + float64 list" where
  "f64_np_bcast g u v =
     (if length u = length v then Inr (map2 g u v)
      else if length u = 1 then Inr (map (g (hd u)) v)
      else if length v = 1 then Inr (map (\<lambda>a. g a (hd v)) u)
      else Inl ValueError)"

text \<open>\<open>np.mean\<close>: the sum divided by the number of entries, nan on an empty array.\<close>

definition f64_np_mean :: "float64 list \<Rightarrow> float64" where
  "f64_np_mean v = fdiv (f64_np_sum v) (Finite (real (length v)))"

definition f64_np_index :: "float64 list \<Rightarrow> int \<Rightarrow> error + nat" where
  "f64_np_index values i =
     (let n = int (length values); j = (if i < 0 then n + i else i)
      in if 0 \<le> j \<and> j < n then Inr (nat j) else Inl IndexError)"

datatype f64_target = FVec "float64 list" | FIdx int

definition f64_np_sub :: "float64 list \<Rightarrow> f64_target \<Rightarrow> error + float64 list" where
  "f64_np_sub values expected =
     (case expected of
        FVec e \<Rightarrow> f64_np_bcast fsub values e
      | FIdx k \<Rightarrow> Inr (map (\<lambda>v. fsub v (round64 (real_of_int k))) values))"

definition f64_MSELoss_loss :: "float64 list \<Rightarrow> f64_target \<Rightarrow> error + float64" where
  "f64_MSELoss_loss values expected =
     ebind (f64_np_sub values expected) (\<lambda>d. Inr (f64_np_mean (map (\<lambda>v. fmul v v) d)))"

definition f64_CrossEntropyLoss_loss :: "float64 list \<Rightarrow> f64_target \<Rightarrow> error + float64" where
  "f64_CrossEntropyLoss_loss values expected =
     (case expected of
        FVec e \<Rightarrow> Inl IndexError
      | FIdx i \<Rightarrow>
          ebind (f64_np_index values i) (\<lambda>k.
          ebind (f64_math_log (f64_np_sum (map fexp values))) (\<lambda>l.
            Inr (fadd (fneg (values ! k)) l))))"

text \<open>A float64 that is not negative: a finite number \<open>\<ge> 0\<close> or \<open>+inf\<close>.\<close>

fun f64_nonneg :: "float64 \<Rightarrow> bool" where
  "f64_nonneg (Finite x) = (0 \<le> x)"
| "f64_nonneg PInf = True"
| "f64_nonneg NInf = False"
| "f64_nonneg NaN = False"

fun is_finite :: "float64 \<Rightarrow> bool" where
  "is_finite (Finite x) = True"
| "is_finite PInf = False"
| "is_finite NInf = False"
| "is_finite NaN = False"

section \<open>Definitions taken from the specification\<close>


text \<open>The pre-activation \<open>W\<cdot>x + b\<close> of a layer, entry by entry.\<close>

definition affine :: "Layer \<Rightarrow> vec \<Rightarrow> vec" where
  "affine l x =
     map (\<lambda>i. (\<Sum>j<ins l. layer_W l ! i ! j * x ! j) + layer_b l ! i) [0..<outs l]"

text \<open>The output \<open>f(W\<cdot>x + b)\<close> of a layer, and the composition of the layers of a list,
  the output of each being the input of the next.\<close>

definition layer_out :: "Layer \<Rightarrow> vec \<Rightarrow> vec" where
  "layer_out l x = act_f (act_function l) (affine l x)"

fun compose_layers :: "Layer list \<Rightarrow> vec \<Rightarrow> vec" where
  "compose_layers [] x = x"
| "compose_layers (l # ls) x = compose_layers ls (layer_out l x)"

text \<open>The input that the forward sweep records for each layer.\<close>

fun recorded_inputs :: "Layer list \<Rightarrow> vec \<Rightarrow> vec list" where
  "recorded_inputs [] x = []"
| "recorded_inputs (l # ls) x = x # recorded_inputs ls (layer_out l x)"

text \<open>
  The gradients of one layer in the backward sweep, for its recorded input \<open>x\<close> and the
  gradient \<open>dx\<close> that reaches it from the layers after it:
  \<^item> \<open>db = df(y) \<odot> dx\<close> with \<open>y = W\<cdot>x + b\<close>,
  \<^item> the gradient passed to the layer before, \<open>W\<^sup>T\<cdot>db\<close>, with the weights as they are
    before the update,
  \<^item> \<open>dW = db\<cdot>x\<^sup>T\<close>,
  and the layer after \<open>W \<leftarrow> W - learning_rate\<cdot>dW\<close>, \<open>b \<leftarrow> b - learning_rate\<cdot>db\<close>.
\<close>

definition grad_b :: "Layer \<Rightarrow> vec \<Rightarrow> vec \<Rightarrow> vec" where
  "grad_b l x dx =
     map (\<lambda>i. act_df (act_function l) (affine l x) ! i * dx ! i) [0..<outs l]"

definition grad_x :: "Layer \<Rightarrow> vec \<Rightarrow> vec \<Rightarrow> vec" where
  "grad_x l x dx =
     map (\<lambda>j. \<Sum>i<outs l. layer_W l ! i ! j * grad_b l x dx ! i) [0..<ins l]"

definition grad_W :: "Layer \<Rightarrow> vec \<Rightarrow> vec \<Rightarrow> mat" where
  "grad_W l x dx =
     map (\<lambda>i. map (\<lambda>j. grad_b l x dx ! i * x ! j) [0..<ins l]) [0..<outs l]"

definition sgd_layer :: "real \<Rightarrow> Layer \<Rightarrow> vec \<Rightarrow> vec \<Rightarrow> Layer" where
  "sgd_layer rate l x dx =
     l\<lparr>layer_W :=
         map (\<lambda>i. map (\<lambda>j. layer_W l ! i ! j - rate * grad_W l x dx ! i ! j) [0..<ins l])
           [0..<outs l],
       layer_b := map (\<lambda>i. layer_b l ! i - rate * grad_b l x dx ! i) [0..<outs l]\<rparr>"

text \<open>
  The whole step on a list of layers with input \<open>x\<close>, seeded with the gradient \<open>g\<close> of the
  loss at the final output: the updated layers, and the gradient at the input. The last
  layer receives \<open>g\<close>, every other layer the gradient passed back by the layer after it.
\<close>

fun backprop :: "real \<Rightarrow> Layer list \<Rightarrow> vec \<Rightarrow> vec \<Rightarrow> Layer list \<times> vec" where
  "backprop rate [] x g = ([], g)"
| "backprop rate (l # ls) x g =
     (let (ls', dx) = backprop rate ls (layer_out l x) g
      in (sgd_layer rate l x dx # ls', grad_x l x dx))"

section \<open>Auxiliary definitions for the proofs\<close>

text \<open>A list of layers fits an input of \<open>n\<close> rows: every layer is well formed, the first
  takes \<open>n\<close> inputs, and each layer takes as many inputs as the layer before has outputs.\<close>

fun fits :: "Layer list \<Rightarrow> nat \<Rightarrow> bool" where
  "fits [] n = True"
| "fits (l # ls) n = (wf_layer l \<and> ins l = n \<and> fits ls (outs l))"

text \<open>The backward loop of \<open>train\<close> again, returning the final \<open>dx\<close> as well.\<close>

fun backward_run :: "real \<Rightarrow> (Layer \<times> vec) list \<Rightarrow> vec \<Rightarrow> error + (Layer list \<times> vec)" where
  "backward_run rate [] dx = Inr ([], dx)"
| "backward_run rate ((layer, x) # rest) dx =
     ebind (backward_step rate layer x dx) (\<lambda>(layer', dx').
     ebind (backward_run rate rest dx') (\<lambda>(rest', dx'').
       Inr (layer' # rest', dx'')))"

section \<open>The example network of the specification\<close>

text \<open>The end-to-end scenario of the specification: \<open>Layer(2, 2, Identity)\<close> with
  \<open>W = I\<close>, \<open>b = 0\<close>, followed by \<open>Layer(2, 1, Identity)\<close> with \<open>W = [1, 1]\<close>, \<open>b = 0\<close>.\<close>

definition example_layer1 :: Layer where
  "example_layer1 =
     \<lparr>ins = 2, outs = 2, act_function = Id_act, layer_W = [[1, 0], [0, 1]], layer_b = [0, 0]\<rparr>"

definition example_layer2 :: Layer where
  "example_layer2 =
     \<lparr>ins = 2, outs = 1, act_function = Id_act, layer_W = [[1, 1]], layer_b = [0]\<rparr>"

definition example_net :: NeuralNetwork where
  "example_net =
     \<lparr>net_layers = [example_layer1, example_layer2], net_loss_function = MSELoss,
      net_lr = 1/10\<rparr>"

text \<open>The example network as objects in a store: the four parameter arrays at the
  addresses 0 to 3, the input \<open>[1, 2]\<close> at 4 and a vector \<open>[3]\<close> at 5.\<close>

definition example_store :: store where
  "example_store =
     [Mat (layer_W example_layer1), Vec (layer_b example_layer1),
      Mat (layer_W example_layer2), Vec (layer_b example_layer2), Vec [1, 2], Vec [3]]"

definition example_obj1 :: LayerObj where
  "example_obj1 = \<lparr>obj_ins = 2, obj_outs = 2, obj_act_function = act_function example_layer1,
                    obj_W = 0, obj_b = 1\<rparr>"

definition example_obj2 :: LayerObj where
  "example_obj2 = \<lparr>obj_ins = 2, obj_outs = 1, obj_act_function = act_function example_layer2,
                    obj_W = 2, obj_b = 3\<rparr>"

definition example_net_obj :: NetworkObj where
  "example_net_obj = \<lparr>obj_layers = [example_obj1, example_obj2],
                        obj_loss_function = MSELoss, obj_lr = 1/10\<rparr>"

section \<open>Repeated training on one example\<close>









section \<open>Basic facts\<close>

lemma ebind_simps [simp]:
  "ebind (Inl e) k = Inl e" "ebind (Inr v) k = k v"
  by (simp_all add: ebind_def)

lemma length_act_f [simp]: "length (act_f a y) = length y"
  by (cases a) simp_all

lemma length_act_df [simp]: "length (act_df a y) = length y"
  by (cases a) simp_all

lemma length_affine [simp]: "length (affine l x) = outs l"
  by (simp add: affine_def)

lemma map2_nth_upt:
  "length u = n \<Longrightarrow> length v = n \<Longrightarrow> map2 g u v = map (\<lambda>i. g (u ! i) (v ! i)) [0..<n]"
  by (rule nth_equalityI) simp_all

lemma sum_exp_pos: "v \<noteq> [] \<Longrightarrow> 0 < (\<Sum>c\<leftarrow>v. exp (c::real))"
proof (induction v)
  case Nil then show ?case by simp
next
  case (Cons a v)
  have "0 \<le> (\<Sum>c\<leftarrow>v. exp c)" by (rule sum_list_nonneg) auto
  moreover have "0 < exp a" by simp
  ultimately show ?case by (simp add: add_pos_nonneg)
qed



lemma np_index_range:
  "np_index v t = Inr k \<longleftrightarrow>
     - int (length v) \<le> t \<and> t < int (length v) \<and> k = nat (if t < 0 then int (length v) + t else t)"
  by (auto simp: np_index_def Let_def)

lemma np_index_less: "np_index v t = Inr k \<Longrightarrow> k < length v"
  by (auto simp: np_index_range)

section \<open>Construction of a network\<close>

lemma check_compat_adjacent:
  "check_compat (zip (butlast ls) (tl ls)) =
     (if \<exists>i. Suc i < length ls \<and> outs (ls ! i) \<noteq> ins (ls ! Suc i) then Inl ValueError
      else Inr ())"
proof (induction ls rule: induct_list012)
  case 1 show ?case by simp
next
  case (2 x) show ?case by simp
next
  case (3 x y zs)
  have ex: "(\<exists>i. Suc i < length (x # y # zs) \<and>
                outs ((x # y # zs) ! i) \<noteq> ins ((x # y # zs) ! Suc i))
      \<longleftrightarrow> outs x \<noteq> ins y \<or>
          (\<exists>i. Suc i < length (y # zs) \<and> outs ((y # zs) ! i) \<noteq> ins ((y # zs) ! Suc i))"
    (is "?L \<longleftrightarrow> ?A \<or> ?R")
  proof
    assume ?L
    then obtain i where i: "Suc i < length (x # y # zs)"
      "outs ((x # y # zs) ! i) \<noteq> ins ((x # y # zs) ! Suc i)" by blast
    show "?A \<or> ?R"
    proof (cases i)
      case 0 with i show ?thesis by simp
    next
      case (Suc j)
      with i have "Suc j < length (y # zs) \<and> outs ((y # zs) ! j) \<noteq> ins ((y # zs) ! Suc j)"
        by simp
      then show ?thesis by blast
    qed
  next
    assume "?A \<or> ?R"
    then show ?L
    proof
      assume ?A
      then have "Suc 0 < length (x # y # zs) \<and>
                 outs ((x # y # zs) ! 0) \<noteq> ins ((x # y # zs) ! Suc 0)" by simp
      then show ?L by blast
    next
      assume ?R
      then obtain j where "Suc j < length (y # zs)"
        "outs ((y # zs) ! j) \<noteq> ins ((y # zs) ! Suc j)" by blast
      then have "Suc (Suc j) < length (x # y # zs) \<and>
                 outs ((x # y # zs) ! Suc j) \<noteq> ins ((x # y # zs) ! Suc (Suc j))" by simp
      then show ?L by blast
    qed
  qed
  have "check_compat (zip (butlast (x # y # zs)) (tl (x # y # zs))) =
        (if outs x \<noteq> ins y then Inl ValueError
         else check_compat (zip (butlast (y # zs)) (tl (y # zs))))"
    by simp
  also have "\<dots> = (if ?L then Inl ValueError else Inr ())"
    unfolding ex using "3.IH"(2) by simp
  finally show ?case .
qed

text \<open>
  Claim C2. Building a network from a list of layers raises the configuration error
  (ValueError) exactly when some layer's output width differs from the input width of the
  layer after it; otherwise it returns the network holding the layers, the loss function and
  the learning rate. The check is part of the constructor, so it precedes every call of
  \<open>forward_pass\<close> or \<open>train\<close> on the network.
\<close>

theorem NeuralNetwork_init_compat:
  "NeuralNetwork_init ls lf rate =
     (if \<exists>i. Suc i < length ls \<and> outs (ls ! i) \<noteq> ins (ls ! Suc i) then Inl ValueError
      else Inr \<lparr>net_layers = ls, net_loss_function = lf, net_lr = rate\<rparr>)"
  by (simp add: NeuralNetwork_init_def check_compat_adjacent)

section \<open>Activation functions\<close>

text \<open>
  Claim C5, as stated: for every leak parameter \<open>\<alpha>\<close>, \<open>df\<close> is 1 where \<open>x > 0\<close> and
  \<open>\<alpha>\<close> elsewhere. With \<open>\<alpha> = 2\<close> and \<open>x = [1]\<close> the source's
  \<open>np.maximum(x > 0, alpha)\<close> is \<open>[2]\<close>, not \<open>[1]\<close>.
\<close>

theorem LeakyReLU_df_counterexample:
  "act_df (LeakyReLU 2) [1] \<noteq> map (\<lambda>v::real. if v > 0 then 1 else 2) [1]"
  by simp

text \<open>
  Claim C5, amended. For every leak parameter \<open>\<alpha>\<close> and every input vector \<open>x\<close>, \<open>f(x)\<close>
  is the elementwise maximum of \<open>x\<close> and \<open>\<alpha>x\<close>; \<open>df(x)\<close> has the shape of \<open>x\<close>, is
  \<open>max(1, \<alpha>)\<close> at every entry where \<open>x > 0\<close> (which is 1 when \<open>\<alpha> \<le> 1\<close>), and is \<open>\<alpha>\<close> at
  every entry where \<open>x \<le> 0\<close> when \<open>\<alpha> \<ge> 0\<close>. So for \<open>0 \<le> \<alpha> \<le> 1\<close>, \<open>df(x)\<close> is
  elementwise 1 where \<open>x > 0\<close> and \<open>\<alpha>\<close> elsewhere.
\<close>

theorem LeakyReLU_f_df:
  "act_f (LeakyReLU alpha) x = map (\<lambda>v. max v (alpha * v)) x \<and>
   length (act_df (LeakyReLU alpha) x) = length x \<and>
   (\<forall>i<length x.
      (0 < x ! i \<longrightarrow> act_df (LeakyReLU alpha) x ! i = max 1 alpha) \<and>
      (x ! i \<le> 0 \<and> 0 \<le> alpha \<longrightarrow> act_df (LeakyReLU alpha) x ! i = alpha)) \<and>
   (0 \<le> alpha \<and> alpha \<le> 1 \<longrightarrow>
      act_df (LeakyReLU alpha) x = map (\<lambda>v. if v > 0 then 1 else alpha) x)"
proof -
  have "map2 max x (map (\<lambda>v. v * alpha) x) = map (\<lambda>v. max v (alpha * v)) x"
    by (induction x) (simp_all add: mult.commute)
  then have f: "act_f (LeakyReLU alpha) x = map (\<lambda>v. max v (alpha * v)) x"
    by simp
  have e: "\<forall>i<length x.
      (0 < x ! i \<longrightarrow> act_df (LeakyReLU alpha) x ! i = max 1 alpha) \<and>
      (x ! i \<le> 0 \<and> 0 \<le> alpha \<longrightarrow> act_df (LeakyReLU alpha) x ! i = alpha)"
    by (auto simp: max_def)
  have w: "0 \<le> alpha \<and> alpha \<le> 1 \<longrightarrow>
      act_df (LeakyReLU alpha) x = map (\<lambda>v. if v > 0 then 1 else alpha) x"
    by (auto simp: max_def)
  show ?thesis using f e w by simp
qed

theorem LeakyReLU_f_df_witness:
  "act_f (LeakyReLU (1/10)) [-1, 0, 2] = [-1/10, 0, 2] \<and>
   act_df (LeakyReLU (1/10)) [-1, 0, 2] = [1/10, 1/10, 1] \<and>
   act_f (LeakyReLU 2) [-1, 0, 2] = [-1, 0, 4] \<and>
   act_df (LeakyReLU 2) [-1, 0, 2] ! 2 = 2"
  using LeakyReLU_f_df [of "1/10" "[-1, 0, 2]"] LeakyReLU_f_df [of 2 "[-1, 0, 2]"]
  by simp

text \<open>
  Claim C6, as stated: for every scale parameter \<open>\<alpha>\<close>, \<open>df\<close> is \<open>\<alpha>e\<^sup>x\<close> where \<open>x < 0\<close>.
  With \<open>\<alpha> = -1\<close> and \<open>x = [-1]\<close> the source's
  \<open>np.maximum(x >= 0, alpha*(x < 0)*np.exp(x))\<close> is \<open>[0]\<close>, not \<open>[-e\<^sup>-\<^sup>1]\<close>.
\<close>

theorem ELU_df_counterexample:
  "act_df (ELU (-1)) [-1] \<noteq> map (\<lambda>v::real. if v \<ge> 0 then 1 else (-1) * exp v) [-1]"
  by simp

text \<open>
  Claim C6 at that input: \<open>df\<close> is documented as the derivative of \<open>f\<close>. With \<open>\<alpha> = -1\<close>
  the source's \<open>df\<close> returns 0 at \<open>x = -1\<close>, while the source's own \<open>f\<close> has the
  derivative \<open>-e\<^sup>-\<^sup>1\<close> there, the value \<open>\<alpha>e\<^sup>x\<close> of the claim, which is not 0.
\<close>

theorem ELU_df_not_derivative:
  "act_df (ELU (-1)) [-1] = [0] \<and>
   ((\<lambda>v. act_f (ELU (-1)) [v] ! 0) has_real_derivative - exp (-1)) (at (-1)) \<and>
   - exp (-1) \<noteq> (0::real)"
proof -
  have d: "((\<lambda>v::real. (-1) * (exp v - 1)) has_real_derivative - exp (-1)) (at (-1))"
    by (auto intro!: derivative_eq_intros)
  have "((\<lambda>v. act_f (ELU (-1)) [v] ! 0) has_real_derivative - exp (-1)) (at (-1))"
  proof (rule has_field_derivative_transform_within_open[OF d, of "{..<0}"])
    show "open ({..<0}::real set)" by simp
    show "(-1::real) \<in> {..<0}" by simp
    show "\<And>x. x \<in> {..<0} \<Longrightarrow> - 1 * (exp x - 1) = act_f (ELU (- 1)) [x] ! 0"
      by simp
  qed
  then show ?thesis by simp
qed

text \<open>
  Where the source's \<open>ELU\<close> does what claim C6 says: \<open>f\<close> for every \<open>\<alpha>\<close> and every input,
  \<open>df\<close> at every entry with \<open>x \<ge> 0\<close> for every \<open>\<alpha>\<close> (the boundary 0 included), and \<open>df\<close> at
  the entries with \<open>x < 0\<close> for \<open>\<alpha> \<ge> 0\<close>. For \<open>\<alpha> < 0\<close> it is 0 there.
\<close>

lemma ELU_f_df_agree:
  "act_f (ELU alpha) x = map (\<lambda>v. if v > 0 then v else alpha * (exp v - 1)) x \<and>
   length (act_df (ELU alpha) x) = length x \<and>
   (\<forall>i<length x.
      (0 \<le> x ! i \<longrightarrow> act_df (ELU alpha) x ! i = 1) \<and>
      (x ! i < 0 \<and> 0 \<le> alpha \<longrightarrow> act_df (ELU alpha) x ! i = alpha * exp (x ! i)) \<and>
      (x ! i < 0 \<and> alpha < 0 \<longrightarrow> act_df (ELU alpha) x ! i = 0))"
proof -
  have "map2 (\<lambda>e v. if v > 0 then v else e) (map (\<lambda>v. alpha * (exp v - 1)) x) x
        = map (\<lambda>v. if v > 0 then v else alpha * (exp v - 1)) x"
    by (induction x) simp_all
  then have f: "act_f (ELU alpha) x = map (\<lambda>v. if v > 0 then v else alpha * (exp v - 1)) x"
    by simp
  have e: "\<forall>i<length x.
      (0 \<le> x ! i \<longrightarrow> act_df (ELU alpha) x ! i = 1) \<and>
      (x ! i < 0 \<and> 0 \<le> alpha \<longrightarrow> act_df (ELU alpha) x ! i = alpha * exp (x ! i)) \<and>
      (x ! i < 0 \<and> alpha < 0 \<longrightarrow> act_df (ELU alpha) x ! i = 0)"
    by (auto simp: max_def zero_le_mult_iff)
  show ?thesis using f e by simp
qed

section \<open>Loss functions\<close>



lemma exp_le_sum_exp:
  "k < length v \<Longrightarrow> exp (v ! k) \<le> (\<Sum>c\<leftarrow>v. exp (c::real))"
proof -
  assume "k < length v"
  then have "exp (v ! k) \<in> set (map exp v)" by simp
  moreover have "\<And>y. y \<in> set (map exp v) \<Longrightarrow> 0 \<le> (y::real)" by auto
  ultimately show ?thesis by (rule member_le_sum_list)
qed

section \<open>The network with no layers\<close>

text \<open>
  Claim C10. A network built from the empty list of layers is accepted; its
  \<open>forward_pass\<close> returns the input unchanged; and \<open>train\<close> evaluates
  \<open>dloss(x, t)\<close>, raises what that raises, and otherwise leaves the network as it was.
\<close>

theorem empty_network:
  "NeuralNetwork_init [] lf rate =
     Inr \<lparr>net_layers = [], net_loss_function = lf, net_lr = rate\<rparr> \<and>
   forward_pass \<lparr>net_layers = [], net_loss_function = lf, net_lr = rate\<rparr> x = Inr x \<and>
   train \<lparr>net_layers = [], net_loss_function = lf, net_lr = rate\<rparr> x t =
     (case dloss_fn lf x t of
        Inl e \<Rightarrow> Inl e
      | Inr dx \<Rightarrow> Inr \<lparr>net_layers = [], net_loss_function = lf, net_lr = rate\<rparr>)"
  by (simp add: NeuralNetwork_init_def forward_pass_def train_def split: sum.splits)

section \<open>One layer: the forward pass and one backward step\<close>

lemma dot_row_sum:
  "length r = length x \<Longrightarrow> dot_row r x = (\<Sum>j<length x. r ! j * x ! j)"
proof -
  assume len: "length r = length x"
  have "dot_row r x = (\<Sum>i = 0..<length (zip r x). map2 (*) r x ! i)"
    unfolding dot_row_def by (simp add: sum_list_sum_nth)
  also have "\<dots> = (\<Sum>j = 0..<length x. r ! j * x ! j)"
    using len by (intro sum.cong) simp_all
  finally show ?thesis by (simp add: lessThan_atLeast0)
qed

lemma wf_layer_row: "wf_layer l \<Longrightarrow> i < outs l \<Longrightarrow> length (layer_W l ! i) = ins l"
  by (simp add: wf_layer_def list_all_length)

lemma np_dot_affine:
  assumes "wf_layer l" and "length x = ins l"
  shows "np_dot (layer_W l) x =
           Inr (map (\<lambda>i. \<Sum>j<ins l. layer_W l ! i ! j * x ! j) [0..<outs l])"
proof -
  from assms have rows: "list_all (\<lambda>r. length r = length x) (layer_W l)"
    and len: "length (layer_W l) = outs l"
    by (simp_all add: wf_layer_def)
  have "map (\<lambda>r. dot_row r x) (layer_W l) =
        map (\<lambda>i. \<Sum>j<ins l. layer_W l ! i ! j * x ! j) [0..<outs l]"
  proof (rule nth_equalityI)
    show "length (map (\<lambda>r. dot_row r x) (layer_W l)) =
          length (map (\<lambda>i. \<Sum>j<ins l. layer_W l ! i ! j * x ! j) [0..<outs l])"
      using len by simp
  next
    fix i assume "i < length (map (\<lambda>r. dot_row r x) (layer_W l))"
    then have i: "i < length (layer_W l)" by simp
    with rows have "length (layer_W l ! i) = length x" by (simp add: list_all_length)
    then have "dot_row (layer_W l ! i) x = (\<Sum>j<length x. layer_W l ! i ! j * x ! j)"
      by (rule dot_row_sum)
    then show "map (\<lambda>r. dot_row r x) (layer_W l) ! i =
               map (\<lambda>i. \<Sum>j<ins l. layer_W l ! i ! j * x ! j) [0..<outs l] ! i"
      using i len assms(2) by simp
  qed
  with rows show ?thesis by (simp add: np_dot_def)
qed

lemma np_bcast_same:
  "length u = n \<Longrightarrow> length v = n \<Longrightarrow> np_bcast g u v = Inr (map (\<lambda>i. g (u ! i) (v ! i)) [0..<n])"
  by (simp add: np_bcast_def map2_nth_upt[where n=n])

lemma pre_activation:
  assumes "wf_layer l" and "length x = ins l"
  shows "ebind (np_dot (layer_W l) x) (\<lambda>wx. np_bcast (+) wx (layer_b l)) = Inr (affine l x)"
proof -
  have b: "length (layer_b l) = outs l" using assms(1) by (simp add: wf_layer_def)
  have "np_bcast (+) (map (\<lambda>i. \<Sum>j<ins l. layer_W l ! i ! j * x ! j) [0..<outs l]) (layer_b l)
        = Inr (affine l x)"
    using b by (simp add: np_bcast_same[where n="outs l"] affine_def)
  then show ?thesis using np_dot_affine[OF assms] by simp
qed

lemma Layer_forward_pass_affine:
  assumes "wf_layer l" and "length x = ins l"
  shows "Layer_forward_pass l x = Inr (layer_out l x)"
proof -
  have "Layer_forward_pass l x =
        ebind (ebind (np_dot (layer_W l) x) (\<lambda>wx. np_bcast (+) wx (layer_b l)))
          (\<lambda>y. Inr (act_f (act_function l) y))"
    by (simp add: Layer_forward_pass_def ebind_def split: sum.splits)
  then show ?thesis using pre_activation[OF assms] by (simp add: layer_out_def)
qed

lemma length_layer_out [simp]: "length (layer_out l x) = outs l"
  by (simp add: layer_out_def)

lemma length_grad_b [simp]: "length (grad_b l x dx) = outs l"
  by (simp add: grad_b_def)

lemma length_grad_x [simp]: "length (grad_x l x dx) = ins l"
  by (simp add: grad_x_def)

lemma np_T_rows:
  assumes "wf_layer l"
  shows "np_T (layer_W l) = map (\<lambda>j. map (\<lambda>i. layer_W l ! i ! j) [0..<outs l]) [0..<ins l]"
proof -
  from assms have len: "length (layer_W l) = outs l" and pos: "0 < outs l"
    by (simp_all add: wf_layer_def)
  then have ne: "layer_W l \<noteq> []" by auto
  have hd: "length (hd (layer_W l)) = ins l"
    using wf_layer_row[OF assms pos] ne by (simp add: hd_conv_nth)
  have "\<And>j. map (\<lambda>r. r ! j) (layer_W l) = map (\<lambda>i. layer_W l ! i ! j) [0..<outs l]"
    using len by (intro nth_equalityI) simp_all
  then show ?thesis using ne hd by (simp add: np_T_def)
qed

lemma np_dot_T:
  assumes "wf_layer l" and "length d = outs l"
  shows "np_dot (np_T (layer_W l)) d =
           Inr (map (\<lambda>j. \<Sum>i<outs l. layer_W l ! i ! j * d ! i) [0..<ins l])"
proof -
  have "\<And>j. dot_row (map (\<lambda>i. layer_W l ! i ! j) [0..<outs l]) d =
             (\<Sum>i<outs l. layer_W l ! i ! j * d ! i)"
  proof -
    fix j
    have "dot_row (map (\<lambda>i. layer_W l ! i ! j) [0..<outs l]) d =
          (\<Sum>i<length d. map (\<lambda>i. layer_W l ! i ! j) [0..<outs l] ! i * d ! i)"
      using assms(2) by (intro dot_row_sum) simp
    also have "\<dots> = (\<Sum>i<outs l. layer_W l ! i ! j * d ! i)"
      using assms(2) by (intro sum.cong) simp_all
    finally show "dot_row (map (\<lambda>i. layer_W l ! i ! j) [0..<outs l]) d =
             (\<Sum>i<outs l. layer_W l ! i ! j * d ! i)" .
  qed
  then show ?thesis
    using assms(2) by (simp add: np_T_rows[OF assms(1)] np_dot_def list_all_iff)
qed

lemma np_isub_same:
  "length u = n \<Longrightarrow> length d = n \<Longrightarrow>
   np_isub u (scale_vec rate d) = Inr (map (\<lambda>i. u ! i - rate * d ! i) [0..<n])"
proof -
  assume u: "length u = n" and d: "length d = n"
  have "map2 (-) u (scale_vec rate d) = map (\<lambda>i. u ! i - rate * d ! i) [0..<n]"
    using u d by (intro nth_equalityI) (simp_all add: scale_vec_def)
  then show ?thesis using u d by (simp add: np_isub_def scale_vec_def)
qed

lemma np_isub_mat_outer:
  assumes "wf_layer l" and "length x = ins l" and "length d = outs l"
  shows "np_isub_mat (layer_W l) (scale_mat rate (np_outer d x)) =
           Inr (map (\<lambda>i. map (\<lambda>j. layer_W l ! i ! j - rate * (d ! i * x ! j)) [0..<ins l])
                  [0..<outs l])"
proof -
  from assms have len: "length (layer_W l) = outs l" by (simp add: wf_layer_def)
  have shape: "list_all2 (\<lambda>r s. length r = length s) (layer_W l) (scale_mat rate (np_outer d x))"
    using assms len
    by (simp add: list_all2_conv_all_nth scale_mat_def scale_vec_def np_outer_def wf_layer_row)
  have "map2 (map2 (-)) (layer_W l) (scale_mat rate (np_outer d x)) =
        map (\<lambda>i. map (\<lambda>j. layer_W l ! i ! j - rate * (d ! i * x ! j)) [0..<ins l]) [0..<outs l]"
  proof (rule nth_equalityI)
    show "length (map2 (map2 (-)) (layer_W l) (scale_mat rate (np_outer d x))) =
          length (map (\<lambda>i. map (\<lambda>j. layer_W l ! i ! j - rate * (d ! i * x ! j)) [0..<ins l])
                  [0..<outs l])"
      using len assms(3) by (simp add: scale_mat_def np_outer_def)
  next
    fix i assume "i < length (map2 (map2 (-)) (layer_W l) (scale_mat rate (np_outer d x)))"
    then have i: "i < outs l" using len assms(3) by (simp add: scale_mat_def np_outer_def)
    have row: "length (layer_W l ! i) = ins l" using wf_layer_row[OF assms(1) i] .
    have "map2 (-) (layer_W l ! i) (scale_vec rate (map (\<lambda>xj. d ! i * xj) x)) =
          map (\<lambda>j. layer_W l ! i ! j - rate * (d ! i * x ! j)) [0..<ins l]"
      using row assms(2) by (intro nth_equalityI) (simp_all add: scale_vec_def)
    then show "map2 (map2 (-)) (layer_W l) (scale_mat rate (np_outer d x)) ! i =
          map (\<lambda>i. map (\<lambda>j. layer_W l ! i ! j - rate * (d ! i * x ! j)) [0..<ins l])
            [0..<outs l] ! i"
      using i len assms(3) by (simp add: scale_mat_def np_outer_def)
  qed
  then show ?thesis using shape len assms(3)
    by (simp add: np_isub_mat_def scale_mat_def np_outer_def)
qed

lemma backward_step_sgd:
  assumes wf: "wf_layer l" and x: "length x = ins l" and dx: "length dx = outs l"
  shows "backward_step rate l x dx = Inr (sgd_layer rate l x dx, grad_x l x dx)"
proof -
  have b: "length (layer_b l) = outs l" using wf by (simp add: wf_layer_def)
  have s1: "np_dot (layer_W l) x =
            Inr (map (\<lambda>i. \<Sum>j<ins l. layer_W l ! i ! j * x ! j) [0..<outs l])"
    using wf x by (rule np_dot_affine)
  have s2: "np_bcast (+) (map (\<lambda>i. \<Sum>j<ins l. layer_W l ! i ! j * x ! j) [0..<outs l])
              (layer_b l) = Inr (affine l x)"
    using b by (simp add: np_bcast_same[where n="outs l"] affine_def)
  have s3: "np_bcast (*) (act_df (act_function l) (affine l x)) dx = Inr (grad_b l x dx)"
    using dx by (simp add: np_bcast_same[where n="outs l"] grad_b_def)
  have s4: "np_dot (np_T (layer_W l)) (grad_b l x dx) = Inr (grad_x l x dx)"
    using np_dot_T[OF wf, of "grad_b l x dx"] by (simp add: grad_x_def)
  have gW: "\<And>i j. i < outs l \<Longrightarrow> j < ins l \<Longrightarrow> grad_W l x dx ! i ! j = grad_b l x dx ! i * x ! j"
    by (simp add: grad_W_def)
  have s5: "np_isub_mat (layer_W l) (scale_mat rate (np_outer (grad_b l x dx) x)) =
            Inr (map (\<lambda>i. map (\<lambda>j. layer_W l ! i ! j - rate * grad_W l x dx ! i ! j) [0..<ins l])
                   [0..<outs l])"
    using np_isub_mat_outer[OF wf x, of "grad_b l x dx" rate] gW by simp
  have s6: "np_isub (layer_b l) (scale_vec rate (grad_b l x dx)) =
            Inr (map (\<lambda>i. layer_b l ! i - rate * grad_b l x dx ! i) [0..<outs l])"
    using b by (simp add: np_isub_same[where n="outs l"])
  show ?thesis
    by (simp add: backward_step_def s1 s2 s3 s4 s5 s6 sgd_layer_def)
qed

section \<open>The loops of the network\<close>

lemma fits_iff:
  "fits ls n \<longleftrightarrow>
     list_all wf_layer ls \<and> check_compat (zip (butlast ls) (tl ls)) = Inr () \<and>
     (ls \<noteq> [] \<longrightarrow> ins (hd ls) = n)"
proof (induction ls arbitrary: n rule: induct_list012)
  case 1 show ?case by simp
next
  case (2 x) show ?case by auto
next
  case (3 x y zs)
  have "fits (x # y # zs) n \<longleftrightarrow> wf_layer x \<and> ins x = n \<and> fits (y # zs) (outs x)" by simp
  also have "\<dots> \<longleftrightarrow> wf_layer x \<and> ins x = n \<and> list_all wf_layer (y # zs) \<and>
      check_compat (zip (butlast (y # zs)) (tl (y # zs))) = Inr () \<and> ins y = outs x"
    using "3.IH"(2)[of "outs x"] by auto
  also have "\<dots> \<longleftrightarrow> list_all wf_layer (x # y # zs) \<and>
      check_compat (zip (butlast (x # y # zs)) (tl (x # y # zs))) = Inr () \<and>
      ((x # y # zs) \<noteq> [] \<longrightarrow> ins (hd (x # y # zs)) = n)"
    by auto
  finally show ?case .
qed

lemma forward_loop_fits:
  "fits ls (length x) \<Longrightarrow> forward_loop ls x = Inr (compose_layers ls x)"
proof (induction ls arbitrary: x)
  case Nil show ?case by simp
next
  case (Cons l ls)
  then have "Layer_forward_pass l x = Inr (layer_out l x)"
    by (simp add: Layer_forward_pass_affine)
  moreover have "forward_loop ls (layer_out l x) = Inr (compose_layers ls (layer_out l x))"
    using Cons by simp
  ultimately show ?case by simp
qed

lemma length_compose_layers:
  "fits ls (length x) \<Longrightarrow> length (compose_layers ls x) = (if ls = [] then length x else outs (last ls))"
  by (induction ls arbitrary: x) auto

lemma forward_loop_foldl:
  "forward_loop ls x = foldl (\<lambda>r l. ebind r (Layer_forward_pass l)) (Inr x) ls"
proof -
  have err: "\<And>e. foldl (\<lambda>r l. ebind r (Layer_forward_pass l)) (Inl e) ls = Inl e" for ls
    by (induction ls) simp_all
  show ?thesis
  proof (induction ls arbitrary: x)
    case Nil show ?case by simp
  next
    case (Cons l ls)
    show ?case
    proof (cases "Layer_forward_pass l x")
      case (Inl e) then show ?thesis by (simp add: err)
    next
      case (Inr y) then show ?thesis using Cons by simp
    qed
  qed
qed

lemma forward_sweep_fits:
  "fits ls (length x) \<Longrightarrow>
   forward_sweep ls (xs @ [x]) = Inr (xs @ recorded_inputs ls x @ [compose_layers ls x])"
proof (induction ls arbitrary: x xs)
  case Nil show ?case by simp
next
  case (Cons l ls)
  then have fp: "Layer_forward_pass l x = Inr (layer_out l x)"
    by (simp add: Layer_forward_pass_affine)
  have "forward_sweep ls ((xs @ [x]) @ [layer_out l x]) =
        Inr ((xs @ [x]) @ recorded_inputs ls (layer_out l x) @ [compose_layers ls (layer_out l x)])"
    using Cons.prems by (intro Cons.IH) simp
  then show ?case using fp by simp
qed

lemma length_recorded_inputs [simp]: "length (recorded_inputs ls x) = length ls"
  by (induction ls arbitrary: x) simp_all

lemma backward_sweep_run:
  "backward_sweep rate ps dx = ebind (backward_run rate ps dx) (\<lambda>(r, dx'). Inr r)"
proof (induction ps arbitrary: dx)
  case Nil show ?case by simp
next
  case (Cons p ps)
  obtain l x where p: "p = (l, x)" by (cases p)
  show ?case
  proof (cases "backward_step rate l x dx")
    case (Inl e) then show ?thesis by (simp add: p)
  next
    case (Inr q)
    obtain l' dx' where q: "q = (l', dx')" by (cases q)
    show ?thesis
    proof (cases "backward_run rate ps dx'")
      case (Inl e) then show ?thesis using Inr q Cons[of dx'] by (simp add: p)
    next
      case (Inr s)
      obtain r dx'' where s: "s = (r, dx'')" by (cases s)
      show ?thesis using \<open>backward_step rate l x dx = Inr q\<close> q Inr s Cons[of dx'] by (simp add: p)
    qed
  qed
qed

lemma backward_run_append:
  "backward_run rate ps dx = Inr (r1, dx1) \<Longrightarrow> backward_run rate qs dx1 = Inr (r2, dx2) \<Longrightarrow>
   backward_run rate (ps @ qs) dx = Inr (r1 @ r2, dx2)"
proof (induction ps arbitrary: dx r1)
  case Nil then show ?case by simp
next
  case (Cons p ps)
  obtain l x where p: "p = (l, x)" by (cases p)
  from Cons.prems(1) obtain l' dx' rest where
    st: "backward_step rate l x dx = Inr (l', dx')" and
    run: "backward_run rate ps dx' = Inr (rest, dx1)" and r1: "r1 = l' # rest"
    by (auto simp: p ebind_def split: sum.splits prod.splits)
  have "backward_run rate (ps @ qs) dx' = Inr (rest @ r2, dx2)"
    using run Cons.prems(2) by (rule Cons.IH)
  then show ?case using st r1 by (simp add: p)
qed

lemma backward_run_backprop:
  "fits ls (length x) \<Longrightarrow> length g = length (compose_layers ls x) \<Longrightarrow>
   backward_run rate (rev (zip ls (recorded_inputs ls x))) g =
     Inr (rev (fst (backprop rate ls x g)), snd (backprop rate ls x g)) \<and>
   length (snd (backprop rate ls x g)) = length x"
proof (induction ls arbitrary: x)
  case Nil then show ?case by simp
next
  case (Cons l ls)
  from Cons.prems have wf: "wf_layer l" and x: "length x = ins l" and rest: "fits ls (outs l)"
    by simp_all
  define y where "y = layer_out l x"
  have ly: "length y = outs l" by (simp add: y_def)
  have IH: "backward_run rate (rev (zip ls (recorded_inputs ls y))) g =
     Inr (rev (fst (backprop rate ls y g)), snd (backprop rate ls y g)) \<and>
     length (snd (backprop rate ls y g)) = length y"
    using rest Cons.prems(2) ly by (intro Cons.IH) (simp_all add: y_def)
  define dx where "dx = snd (backprop rate ls y g)"
  have ldx: "length dx = outs l" using IH ly by (simp add: dx_def)
  have step: "backward_run rate [(l, x)] dx = Inr ([sgd_layer rate l x dx], grad_x l x dx)"
    using backward_step_sgd[OF wf x ldx] by simp
  have "backward_run rate (rev (zip ls (recorded_inputs ls y)) @ [(l, x)]) g =
        Inr (rev (fst (backprop rate ls y g)) @ [sgd_layer rate l x dx], grad_x l x dx)"
    using IH step by (intro backward_run_append[where ?dx1.0=dx]) (simp_all add: dx_def)
  moreover have "backprop rate (l # ls) x g =
                 (sgd_layer rate l x dx # fst (backprop rate ls y g), grad_x l x dx)"
    by (simp add: y_def dx_def split: prod.splits)
  ultimately show ?case using x by (simp add: y_def)
qed

section \<open>The forward pass and the training step\<close>

lemma init_fits:
  assumes "NeuralNetwork_init ls lf rate = Inr net" and "list_all wf_layer ls"
    and "ls \<noteq> [] \<longrightarrow> length x = ins (hd ls)"
  shows "net = \<lparr>net_layers = ls, net_loss_function = lf, net_lr = rate\<rparr> \<and> fits ls (length x)"
proof -
  from assms(1) have c: "check_compat (zip (butlast ls) (tl ls)) = Inr ()"
    and n: "net = \<lparr>net_layers = ls, net_loss_function = lf, net_lr = rate\<rparr>"
    by (auto simp: NeuralNetwork_init_def ebind_def split: sum.splits)
  from c assms(2,3) have "fits ls (length x)" by (auto simp: fits_iff)
  with n show ?thesis by simp
qed

lemma train_fits:
  assumes f: "fits (net_layers net) (length x)"
    and g: "dloss_fn (net_loss_function net) (compose_layers (net_layers net) x) t = Inr g"
    and lg: "length g = length (compose_layers (net_layers net) x)"
  shows "train net x t =
           Inr (net\<lparr>net_layers := fst (backprop (net_lr net) (net_layers net) x g)\<rparr>)"
proof -
  let ?ls = "net_layers net"
  have sweep: "forward_sweep ?ls [x] = Inr (recorded_inputs ?ls x @ [compose_layers ?ls x])"
    using forward_sweep_fits[OF f, of "[]"] by simp
  have z: "zip (rev ?ls) (rev (recorded_inputs ?ls x)) = rev (zip ?ls (recorded_inputs ?ls x))"
    by (simp add: zip_rev)
  have run: "backward_run (net_lr net) (rev (zip ?ls (recorded_inputs ?ls x))) g =
             Inr (rev (fst (backprop (net_lr net) ?ls x g)), snd (backprop (net_lr net) ?ls x g))"
    using backward_run_backprop[OF f lg] by simp
  have "backward_sweep (net_lr net) (zip (rev ?ls) (rev (recorded_inputs ?ls x))) g =
        Inr (rev (fst (backprop (net_lr net) ?ls x g)))"
    unfolding z backward_sweep_run run by simp
  then show ?thesis using sweep g by (simp add: train_def)
qed

lemma backprop_frame:
  "map (\<lambda>l. (ins l, outs l, act_function l)) (fst (backprop rate ls x g)) =
   map (\<lambda>l. (ins l, outs l, act_function l)) ls"
proof (induction ls arbitrary: x)
  case Nil show ?case by simp
next
  case (Cons l ls)
  obtain ls' dx where b: "backprop rate ls (layer_out l x) g = (ls', dx)"
    by (cases "backprop rate ls (layer_out l x) g")
  with Cons[of "layer_out l x"] show ?case by (simp add: sgd_layer_def)
qed

text \<open>
  Claim C1. For a network that was accepted by the constructor, whose layers have the shapes
  the layer constructor gives them, an input column vector \<open>x\<close> of the first layer's width
  and a target \<open>t\<close> at which \<open>dloss\<close> of the final output is the gradient \<open>g\<close> (of the
  output's shape), one call \<open>train(x, t)\<close> succeeds and is exactly one gradient-descent
  update: the forward sweep records each layer's input, \<open>dx\<close> is seeded with \<open>g\<close>, and, from
  the last layer to the first, each layer gets \<open>db = df(y) \<odot> dx\<close> with
  \<open>y = W\<cdot>x_layer + b\<close>, passes \<open>W\<^sup>T\<cdot>db\<close> back (with the weights before its update), and has
  \<open>W\<close> and \<open>b\<close> replaced by \<open>W - learning_rate\<cdot>db\<cdot>x_layer\<^sup>T\<close> and
  \<open>b - learning_rate\<cdot>db\<close> (the function \<open>backprop\<close>). Nothing else changes: the loss
  function, the learning rate, and the widths and activation of every layer are as before.
\<close>

theorem train_gradient_step:
  assumes "NeuralNetwork_init ls lf rate = Inr net"
    and "list_all wf_layer ls"
    and "ls \<noteq> [] \<longrightarrow> length x = ins (hd ls)"
    and "dloss_fn lf (compose_layers ls x) t = Inr g"
    and "length g = length (compose_layers ls x)"
  shows "forward_pass net x = Inr (compose_layers ls x) \<and>
         train net x t =
           Inr \<lparr>net_layers = fst (backprop rate ls x g), net_loss_function = lf, net_lr = rate\<rparr> \<and>
         map (\<lambda>l. (ins l, outs l, act_function l)) (fst (backprop rate ls x g)) =
           map (\<lambda>l. (ins l, outs l, act_function l)) ls"
proof -
  from init_fits[OF assms(1,2,3)]
  have n: "net = \<lparr>net_layers = ls, net_loss_function = lf, net_lr = rate\<rparr>"
    and f: "fits ls (length x)" by simp_all
  have "train net x t = Inr (net\<lparr>net_layers := fst (backprop (net_lr net) (net_layers net) x g)\<rparr>)"
    using f assms(4,5) by (intro train_fits) (simp_all add: n)
  moreover have "forward_pass net x = Inr (compose_layers ls x)"
    using f by (simp add: forward_pass_def n forward_loop_fits)
  ultimately show ?thesis by (simp add: n backprop_frame)
qed

text \<open>
  Claim C3. For a layer with the shapes its constructor gives it and an input column vector
  \<open>x\<close> with exactly \<open>ins\<close> rows, \<open>Layer.forward_pass(x)\<close> returns \<open>a.f(W\<cdot>x + b)\<close>, a column
  vector with \<open>outs\<close> rows. \<open>Network.forward_pass\<close> is the sequential composition of the
  layers' \<open>forward_pass\<close>, each output (or exception) being passed on to the next layer; for
  an accepted network of such layers and an input of the first layer's width it returns the
  composition of the functions \<open>u \<mapsto> a.f(W\<cdot>u + b)\<close> of its layers.
\<close>

theorem forward_pass_composition:
  "(wf_layer l \<and> length x = ins l \<longrightarrow>
      Layer_forward_pass l x = Inr (act_f (act_function l) (affine l x)) \<and>
      length (act_f (act_function l) (affine l x)) = outs l) \<and>
   forward_pass net v = foldl (\<lambda>r l. ebind r (Layer_forward_pass l)) (Inr v) (net_layers net) \<and>
   (NeuralNetwork_init ls lf rate = Inr net \<and> list_all wf_layer ls \<and>
    (ls \<noteq> [] \<longrightarrow> length v = ins (hd ls)) \<longrightarrow>
      forward_pass net v = Inr (foldl (\<lambda>u l. act_f (act_function l) (affine l u)) v ls))"
proof (intro conjI impI)
  assume "wf_layer l \<and> length x = ins l"
  then show "Layer_forward_pass l x = Inr (act_f (act_function l) (affine l x))"
    using Layer_forward_pass_affine[of l x] by (simp add: layer_out_def)
next
  show "length (act_f (act_function l) (affine l x)) = outs l" by simp
next
  show "forward_pass net v = foldl (\<lambda>r l. ebind r (Layer_forward_pass l)) (Inr v) (net_layers net)"
    by (simp add: forward_pass_def forward_loop_foldl)
next
  assume h: "NeuralNetwork_init ls lf rate = Inr net \<and> list_all wf_layer ls \<and>
    (ls \<noteq> [] \<longrightarrow> length v = ins (hd ls))"
  then have n: "net = \<lparr>net_layers = ls, net_loss_function = lf, net_lr = rate\<rparr>"
    and f: "fits ls (length v)" using init_fits[of ls lf rate net v] by simp_all
  have "compose_layers ls u = foldl (\<lambda>u l. act_f (act_function l) (affine l u)) u ls" for u
    by (induction ls arbitrary: u) (simp_all add: layer_out_def)
  then show "forward_pass net v = Inr (foldl (\<lambda>u l. act_f (act_function l) (affine l u)) v ls)"
    using f by (simp add: forward_pass_def n forward_loop_fits)
qed

section \<open>The training step on the example network\<close>

lemmas example_defs = example_layer1_def example_layer2_def example_net_def

lemmas eval_simps = affine_def layer_out_def grad_b_def grad_x_def grad_W_def sgd_layer_def
  lessThan_Suc numeral_2_eq_2 upt_rec wf_layer_def

lemma example_init:
  "NeuralNetwork_init [example_layer1, example_layer2] MSELoss (1/10) = Inr example_net"
  by (simp add: NeuralNetwork_init_def example_defs)

lemma example_wf: "list_all wf_layer [example_layer1, example_layer2]"
  by (simp add: wf_layer_def example_defs)

lemma example_input:
  "[example_layer1, example_layer2] \<noteq> [] \<longrightarrow>
   length [1, 2 :: real] = ins (hd [example_layer1, example_layer2])"
  by (simp add: example_defs)

lemma example_out: "compose_layers [example_layer1, example_layer2] [1, 2] = [3]"
  by (simp add: example_defs eval_simps)

lemma example_dloss:
  "dloss_fn MSELoss (compose_layers [example_layer1, example_layer2] [1, 2]) (TVec [5]) = Inr [-4]"
  unfolding example_out by (simp add: MSELoss_dloss_def np_sub_def np_bcast_def)

lemma example_backprop:
  "fst (backprop (1/10) [example_layer1, example_layer2] [1, 2] [-4]) =
     [example_layer1\<lparr>layer_W := [[14/10, 8/10], [4/10, 18/10]], layer_b := [4/10, 4/10]\<rparr>,
      example_layer2\<lparr>layer_W := [[14/10, 18/10]], layer_b := [4/10]\<rparr>]"
  by (simp add: example_defs eval_simps)

theorem train_gradient_step_witness:
  "NeuralNetwork_init [example_layer1, example_layer2] MSELoss (1/10) = Inr example_net \<and>
   list_all wf_layer [example_layer1, example_layer2] \<and>
   length [1, 2 :: real] = ins (hd [example_layer1, example_layer2]) \<and>
   dloss_fn MSELoss (compose_layers [example_layer1, example_layer2] [1, 2]) (TVec [5]) = Inr [-4] \<and>
   forward_pass example_net [1, 2] = Inr [3] \<and>
   train example_net [1, 2] (TVec [5]) =
     Inr \<lparr>net_layers =
            [example_layer1\<lparr>layer_W := [[14/10, 8/10], [4/10, 18/10]], layer_b := [4/10, 4/10]\<rparr>,
             example_layer2\<lparr>layer_W := [[14/10, 18/10]], layer_b := [4/10]\<rparr>],
          net_loss_function = MSELoss, net_lr = 1/10\<rparr>"
proof -
  have lg: "length [-4 :: real] = length (compose_layers [example_layer1, example_layer2] [1, 2])"
    unfolding example_out by simp
  note r = train_gradient_step [OF example_init example_wf example_input example_dloss lg,
      unfolded example_out example_backprop]
  show ?thesis
  proof (intro conjI)
    show "NeuralNetwork_init [example_layer1, example_layer2] MSELoss (1/10) = Inr example_net"
      by (rule example_init)
    show "list_all wf_layer [example_layer1, example_layer2]" by (rule example_wf)
    show "length [1, 2 :: real] = ins (hd [example_layer1, example_layer2])"
      using example_input by simp
    show "dloss_fn MSELoss (compose_layers [example_layer1, example_layer2] [1, 2]) (TVec [5]) =
          Inr [-4]" by (rule example_dloss)
    show "forward_pass example_net [1, 2] = Inr [3]" using r by blast
    show "train example_net [1, 2] (TVec [5]) =
     Inr \<lparr>net_layers =
            [example_layer1\<lparr>layer_W := [[14/10, 8/10], [4/10, 18/10]], layer_b := [4/10, 4/10]\<rparr>,
             example_layer2\<lparr>layer_W := [[14/10, 18/10]], layer_b := [4/10]\<rparr>],
          net_loss_function = MSELoss, net_lr = 1/10\<rparr>" using r by blast
  qed
qed

theorem forward_pass_composition_witness:
  "(wf_layer example_layer2 \<and> length [1, 2 :: real] = ins example_layer2) \<and>
   Layer_forward_pass example_layer2 [1, 2] = Inr [3] \<and>
   (NeuralNetwork_init [example_layer1, example_layer2] MSELoss (1/10) = Inr example_net \<and>
    list_all wf_layer [example_layer1, example_layer2] \<and>
    length [1, 2 :: real] = ins (hd [example_layer1, example_layer2])) \<and>
   forward_pass example_net [1, 2] = Inr [3]"
proof -
  have w: "wf_layer example_layer2 \<and> length [1, 2 :: real] = ins example_layer2"
    by (simp add: wf_layer_def example_defs)
  have n: "NeuralNetwork_init [example_layer1, example_layer2] MSELoss (1/10) = Inr example_net \<and>
    list_all wf_layer [example_layer1, example_layer2] \<and>
    ([example_layer1, example_layer2] \<noteq> [] \<longrightarrow>
       length [1, 2 :: real] = ins (hd [example_layer1, example_layer2]))"
    using example_init example_wf example_input by blast
  have a: "act_f (act_function example_layer2) (affine example_layer2 [1, 2]) = [3]"
    by (simp add: example_defs eval_simps)
  have c: "foldl (\<lambda>u l. act_f (act_function l) (affine l u)) [1, 2]
             [example_layer1, example_layer2] = [3]"
    by (simp add: example_defs eval_simps)
  note r = forward_pass_composition [of example_layer2 "[1, 2]" example_net "[1, 2]"
        "[example_layer1, example_layer2]" MSELoss "1/10", unfolded a c]
  from r w have "Layer_forward_pass example_layer2 [1, 2] = Inr [3]" by blast
  moreover from r n have "forward_pass example_net [1, 2] = Inr [3]" by blast
  ultimately show ?thesis using w n by blast
qed

section \<open>Repeated training: the loss on a fixed example\<close>















lemma sgd_layer_fields [simp]:
  "ins (sgd_layer rate l x g) = ins l"
  "outs (sgd_layer rate l x g) = outs l"
  "act_function (sgd_layer rate l x g) = act_function l"
  by (simp_all add: sgd_layer_def)




















section \<open>The store: what the forward pass and the loss leave unchanged\<close>

lemma extends_refl [simp]: "extends h h"
  by (simp add: extends_def)

lemma extends_append [simp]: "extends h (h @ ys)"
  by (simp add: extends_def)

lemma extends_length: "extends h h' \<Longrightarrow> length h \<le> length h'"
proof -
  assume "extends h h'"
  then have "length (take (length h) h') = length h" by (simp add: extends_def)
  then show ?thesis by simp
qed

lemma extends_trans: "extends h h' \<Longrightarrow> extends h' h'' \<Longrightarrow> extends h h''"
proof -
  assume a: "extends h h'" and b: "extends h' h''"
  have le: "length h \<le> length h'" using a by (rule extends_length)
  have "take (length h) h'' = take (length h) (take (length h') h'')"
    using le by (simp add: min_def)
  also have "\<dots> = take (length h) h'" using b by (simp add: extends_def)
  also have "\<dots> = h" using a by (simp add: extends_def)
  finally show ?thesis by (simp add: extends_def)
qed

lemma extends_nth: "extends h h' \<Longrightarrow> a < length h \<Longrightarrow> h' ! a = h ! a"
proof -
  assume e: "extends h h'" and a: "a < length h"
  have "take (length h) h' ! a = h' ! a" using a by simp
  then show ?thesis using e by (simp add: extends_def)
qed

lemma frame_sbind:
  assumes "\<And>h. extends h (snd (m h))" and "\<And>v h. extends h (snd (k v h))"
  shows "extends h (snd (sbind m k h))"
proof (cases "m h")
  case (Pair r h')
  have e: "extends h h'" using assms(1)[of h] Pair by simp
  show ?thesis
  proof (cases r)
    case (Inl err)
    then show ?thesis using Pair e by (simp add: sbind_def)
  next
    case (Inr v)
    have "extends h' (snd (k v h'))" by (rule assms(2))
    with e have "extends h (snd (k v h'))" by (rule extends_trans)
    then show ?thesis using Pair Inr by (simp add: sbind_def)
  qed
qed

lemma frame_sreturn [simp]: "extends h (snd (sreturn v h))"
  by (simp add: sreturn_def)

lemma frame_sraise [simp]: "extends h (snd (sraise e h))"
  by (simp add: sraise_def)

lemma frame_lift_result [simp]: "extends h (snd (lift_result r h))"
  by (cases r) (simp_all add: lift_result_def)

lemma frame_new_array [simp]: "extends h (snd (new_array a h))"
  by (simp add: new_array_def)

lemma frame_get_vec [simp]: "extends h (snd (get_vec a h))"
  by (simp add: get_vec_def split: ndarray.splits)

lemma frame_get_mat [simp]: "extends h (snd (get_mat a h))"
  by (simp add: get_mat_def split: ndarray.splits)

lemma frame_s_np_dot: "extends h (snd (s_np_dot A x h))"
  unfolding s_np_dot_def by (intro frame_sbind) simp_all

lemma frame_s_np_add: "extends h (snd (s_np_add u v h))"
  unfolding s_np_add_def by (intro frame_sbind) simp_all

text \<open>An array that has just been allocated can be assigned into: the arrays that were
  there before are not touched.\<close>

lemma frame_new_then_set:
  "extends h (snd (sbind (new_array a) (\<lambda>out.
     sbind (get_vec out) (\<lambda>w. sbind (set_array out (F w)) (\<lambda>_. sreturn out))) h))"
  by (cases a) (simp_all add: sbind_def new_array_def get_vec_def set_array_def sreturn_def)

lemma frame_s_act_f: "extends h (snd (s_act_f a x h))"
proof (cases a)
  case Id_act
  then show ?thesis by simp
next
  case (ELU alpha)
  show ?thesis unfolding ELU s_act_f.simps
    by (rule frame_sbind) (simp_all add: frame_new_then_set)
qed (simp_all add: frame_sbind)

lemma frame_s_Layer_forward_pass: "extends h (snd (s_Layer_forward_pass layer x h))"
  unfolding s_Layer_forward_pass_def
  by (intro frame_sbind frame_s_np_dot frame_s_np_add frame_s_act_f)

lemma frame_s_forward_loop: "extends h (snd (s_forward_loop ls x h))"
proof (induction ls arbitrary: x h)
  case Nil
  show ?case by simp
next
  case (Cons l ls)
  show ?case unfolding s_forward_loop.simps
    by (rule frame_sbind) (simp_all add: frame_s_Layer_forward_pass Cons.IH)
qed

lemma frame_s_loss: "extends h (snd (s_loss net values expected h))"
  unfolding s_loss_def by (intro frame_sbind) simp_all

lemma layer_in_extends:
  assumes "extends h h'" and "layer_in h obj \<noteq> None"
  shows "layer_in h' obj = layer_in h obj"
proof -
  have b: "obj_W obj < length h \<and> obj_b obj < length h"
    using assms(2) by (simp add: layer_in_def split: if_splits)
  have le: "length h \<le> length h'" using assms(1) by (rule extends_length)
  have "h' ! obj_W obj = h ! obj_W obj" "h' ! obj_b obj = h ! obj_b obj"
    using assms(1) b by (simp_all add: extends_nth)
  then show ?thesis using b le by (simp add: layer_in_def)
qed

text \<open>On the store the forward pass computes what it computes on values: the array at
  the address it returns is the vector of the value model, and it raises when the value
  model does.\<close>

lemma get_vec_at: "a < length h \<Longrightarrow> h ! a = Vec v \<Longrightarrow> get_vec a h = (Inr v, h)"
  by (simp add: get_vec_def)

lemma get_mat_at: "a < length h \<Longrightarrow> h ! a = Mat M \<Longrightarrow> get_mat a h = (Inr M, h)"
  by (simp add: get_mat_def)

lemma s_np_dot_value:
  assumes "A < length h" "h ! A = Mat M" "x < length h" "h ! x = Vec v"
  shows "s_np_dot A x h =
           (case np_dot M v of Inl e \<Rightarrow> (Inl e, h) | Inr r \<Rightarrow> (Inr (length h), h @ [Vec r]))"
  using assms
  by (simp add: s_np_dot_def sbind_def get_vec_at get_mat_at lift_result_def sraise_def
      sreturn_def new_array_def split: sum.splits)

lemma s_np_add_value:
  assumes "u < length h" "h ! u = Vec a" "w < length h" "h ! w = Vec b"
  shows "s_np_add u w h =
           (case np_bcast (+) a b of Inl e \<Rightarrow> (Inl e, h)
            | Inr r \<Rightarrow> (Inr (length h), h @ [Vec r]))"
  using assms
  by (simp add: s_np_add_def sbind_def get_vec_at lift_result_def sraise_def
      sreturn_def new_array_def split: sum.splits)

lemma s_act_f_value:
  assumes "y < length h" "h ! y = Vec v"
  shows "\<exists>a h'. s_act_f f y h = (Inr a, h') \<and> a < length h' \<and> h' ! a = Vec (act_f f v)"
  using assms
  by (cases f)
     (simp_all add: sbind_def get_vec_def sreturn_def new_array_def set_array_def nth_append)

lemma s_Layer_forward_pass_value:
  assumes l: "layer_in h obj = Some l" and x: "x < length h" "h ! x = Vec v"
  shows "(\<exists>e h'. s_Layer_forward_pass obj x h = (Inl e, h') \<and> Layer_forward_pass l v = Inl e) \<or>
         (\<exists>a h' out. s_Layer_forward_pass obj x h = (Inr a, h') \<and> a < length h' \<and>
            h' ! a = Vec out \<and> Layer_forward_pass l v = Inr out)"
proof -
  from l obtain M bv where
    W: "obj_W obj < length h" "h ! obj_W obj = Mat M" and
    b: "obj_b obj < length h" "h ! obj_b obj = Vec bv" and
    lv: "l = \<lparr>ins = obj_ins obj, outs = obj_outs obj,
              act_function = obj_act_function obj, layer_W = M, layer_b = bv\<rparr>"
    by (auto simp: layer_in_def split: if_splits ndarray.splits)
  show ?thesis
  proof (cases "np_dot M v")
    case (Inl e)
    then show ?thesis using lv
      by (simp add: s_Layer_forward_pass_def sbind_def s_np_dot_value[OF W x]
          Layer_forward_pass_def)
  next
    case wx: (Inr wx)
    let ?h1 = "h @ [Vec wx]"
    have d: "s_np_dot (obj_W obj) x h = (Inr (length h), ?h1)"
      using wx by (simp add: s_np_dot_value[OF W x])
    have a1: "length h < length ?h1" "?h1 ! length h = Vec wx"
      "obj_b obj < length ?h1" "?h1 ! obj_b obj = Vec bv"
      using b by (simp_all add: nth_append)
    show ?thesis
    proof (cases "np_bcast (+) wx bv")
      case (Inl e)
      then show ?thesis using lv wx d
        by (simp add: s_Layer_forward_pass_def sbind_def s_np_add_value[OF a1]
            Layer_forward_pass_def)
    next
      case y: (Inr y)
      let ?h2 = "?h1 @ [Vec y]"
      have s: "s_np_add (length h) (obj_b obj) ?h1 = (Inr (length ?h1), ?h2)"
        using y by (simp add: s_np_add_value[OF a1])
      have a2: "length ?h1 < length ?h2" "?h2 ! length ?h1 = Vec y"
        by (simp_all add: nth_append)
      obtain a h' where f: "s_act_f (obj_act_function obj) (length ?h1) ?h2 = (Inr a, h')"
        "a < length h'" "h' ! a = Vec (act_f (obj_act_function obj) y)"
        using s_act_f_value[OF a2] by blast
      have "s_Layer_forward_pass obj x h = (Inr a, h')"
        using d s f(1) by (simp add: s_Layer_forward_pass_def sbind_def)
      then show ?thesis using f(2,3) lv wx y
        by (simp add: Layer_forward_pass_def)
    qed
  qed
qed

lemma s_forward_loop_value:
  assumes "list_all2 (\<lambda>obj l. layer_in h obj = Some l) objs ls"
    and "x < length h" "h ! x = Vec v"
  shows "(\<exists>e h'. s_forward_loop objs x h = (Inl e, h') \<and> forward_loop ls v = Inl e) \<or>
         (\<exists>a h' out. s_forward_loop objs x h = (Inr a, h') \<and> a < length h' \<and>
            h' ! a = Vec out \<and> forward_loop ls v = Inr out)"
  using assms
proof (induction objs arbitrary: ls x v h)
  case Nil
  then show ?case by (simp add: sreturn_def)
next
  case (Cons obj objs)
  from Cons.prems(1) obtain l ls' where ls: "ls = l # ls'"
    and l: "layer_in h obj = Some l"
    and rest: "list_all2 (\<lambda>obj l. layer_in h obj = Some l) objs ls'"
    by (auto simp: list_all2_Cons1)
  from s_Layer_forward_pass_value[OF l Cons.prems(2,3)]
  show ?case
  proof (elim disjE exE conjE)
    fix e h'
    assume "s_Layer_forward_pass obj x h = (Inl e, h')" "Layer_forward_pass l v = Inl e"
    then show ?thesis using ls by (simp add: sbind_def)
  next
    fix a h' out
    assume s: "s_Layer_forward_pass obj x h = (Inr a, h')" and a: "a < length h'"
      "h' ! a = Vec out" and p: "Layer_forward_pass l v = Inr out"
    have e: "extends h h'" using frame_s_Layer_forward_pass[of h obj x] s by simp
    have "list_all2 (\<lambda>obj l. layer_in h' obj = Some l) objs ls'"
      using rest by (rule list_all2_mono) (simp add: layer_in_extends[OF e])
    from Cons.IH[OF this a] show ?thesis using s p ls by (simp add: sbind_def)
  qed
qed

lemma s_loss_value:
  assumes "values < length h" "h ! values = Vec v"
  shows "s_loss net values expected h = (loss_fn (obj_loss_function net) v expected, h)"
  using assms
  by (simp add: s_loss_def sbind_def get_vec_at lift_result_def sraise_def sreturn_def
      split: sum.splits)

lemmas store_defs = sbind_def sreturn_def sraise_def lift_result_def new_array_def get_vec_def
  get_mat_def set_array_def s_np_dot_def s_np_add_def s_np_mul_def s_act_df_def s_dloss_def
  s_Layer_forward_pass_def s_backward_step_def s_train_def s_forward_pass_def s_loss_def

lemmas np_defs = np_dot_def dot_row_def np_bcast_def np_T_def np_outer_def np_isub_def
  np_isub_mat_def scale_vec_def scale_mat_def MSELoss_dloss_def np_sub_def

lemmas example_obj_defs = example_net_obj_def example_obj1_def example_obj2_def
  example_store_def

lemma example_s_forward_pass:
  "s_forward_pass example_net_obj 4 example_store =
     (Inr 9, example_store @ [Vec [1, 2], Vec [1, 2], Vec [3], Vec [3]])"
  by (simp add: example_obj_defs example_defs store_defs np_defs)

lemma example_s_train:
  "fst (s_train example_net_obj 4 (TVec [5]) example_store) = Inr () \<and>
   take 6 (snd (s_train example_net_obj 4 (TVec [5]) example_store)) =
     [Mat [[14/10, 8/10], [4/10, 18/10]], Vec [4/10, 4/10],
      Mat [[14/10, 18/10]], Vec [4/10], Vec [1, 2], Vec [3]]"
  by (simp add: example_obj_defs example_defs store_defs np_defs)

text \<open>
  Claim C8. \<open>Layer.forward_pass\<close>, \<open>NeuralNetwork.forward_pass\<close> and
  \<open>NeuralNetwork.loss\<close> leave every array that exists when they are called as it is: the
  store after the call extends the store before it, whatever the arguments are and also
  when the call raises. So every layer object stands for the same layer, with the same
  \<open>W\<close> and \<open>b\<close>, after the call as before. (The other fields of a layer and of the network
  are never assigned.) \<open>train\<close> is the method that writes into existing arrays: on the
  example network it overwrites the arrays at the addresses 0 to 3, so the store after it
  does not extend the store before it, and the first layer object stands for another
  layer.
\<close>

theorem forward_pass_loss_frame:
  "extends h (snd (s_Layer_forward_pass layer x h)) \<and>
   extends h (snd (s_forward_pass net x h)) \<and>
   extends h (snd (s_loss net vs expected h)) \<and>
   (layer_in h obj \<noteq> None \<longrightarrow>
      layer_in (snd (s_Layer_forward_pass layer x h)) obj = layer_in h obj \<and>
      layer_in (snd (s_forward_pass net x h)) obj = layer_in h obj \<and>
      layer_in (snd (s_loss net vs expected h)) obj = layer_in h obj) \<and>
   \<not> extends example_store (snd (s_train example_net_obj 4 (TVec [5]) example_store)) \<and>
   layer_in (snd (s_train example_net_obj 4 (TVec [5]) example_store)) example_obj1
     \<noteq> layer_in example_store example_obj1"
proof -
  have a: "extends h (snd (s_Layer_forward_pass layer x h))"
    by (rule frame_s_Layer_forward_pass)
  have b: "extends h (snd (s_forward_pass net x h))"
    unfolding s_forward_pass_def by (rule frame_s_forward_loop)
  have c: "extends h (snd (s_loss net vs expected h))"
    by (rule frame_s_loss)
  have d: "layer_in h obj \<noteq> None \<longrightarrow>
      layer_in (snd (s_Layer_forward_pass layer x h)) obj = layer_in h obj \<and>
      layer_in (snd (s_forward_pass net x h)) obj = layer_in h obj \<and>
      layer_in (snd (s_loss net vs expected h)) obj = layer_in h obj"
    using a b c by (simp add: layer_in_extends)
  let ?h' = "snd (s_train example_net_obj 4 (TVec [5]) example_store)"
  have t: "take 6 ?h' =
     [Mat [[14/10, 8/10], [4/10, 18/10]], Vec [4/10, 4/10],
      Mat [[14/10, 18/10]], Vec [4/10], Vec [1, 2], Vec [3]]"
    using example_s_train by blast
  have len: "length example_store = 6" by (simp add: example_store_def)
  have e: "\<not> extends example_store ?h'"
  proof
    assume "extends example_store ?h'"
    then have "take 6 ?h' = example_store" unfolding extends_def len .
    then show False unfolding t by (simp add: example_store_def example_defs)
  qed
  have "6 \<le> length ?h'"
  proof (rule ccontr)
    assume "\<not> 6 \<le> length ?h'"
    then have "length (take 6 ?h') < 6" by simp
    then show False unfolding t by simp
  qed
  moreover have "?h' ! 0 = take 6 ?h' ! 0" "?h' ! 1 = take 6 ?h' ! 1" by simp_all
  ultimately have f: "layer_in ?h' example_obj1 \<noteq> layer_in example_store example_obj1"
    unfolding t by (simp add: layer_in_def example_obj_defs example_defs)
  show ?thesis using a b c d e f by blast
qed

theorem forward_pass_loss_frame_witness:
  "layer_in example_store example_obj2 = Some example_layer2 \<and>
   layer_in (snd (s_Layer_forward_pass example_obj1 4 example_store)) example_obj2
     = Some example_layer2 \<and>
   layer_in (snd (s_forward_pass example_net_obj 4 example_store)) example_obj2
     = Some example_layer2 \<and>
   layer_in (snd (s_loss example_net_obj 5 (TVec [5]) example_store)) example_obj2
     = Some example_layer2 \<and>
   fst (s_forward_pass example_net_obj 4 example_store) = Inr 9 \<and>
   snd (s_forward_pass example_net_obj 4 example_store) ! 9 = Vec [3]"
proof -
  have l: "layer_in example_store example_obj2 = Some example_layer2"
    by (simp add: layer_in_def example_obj_defs example_defs)
  have r: "fst (s_forward_pass example_net_obj 4 example_store) = Inr 9 \<and>
           snd (s_forward_pass example_net_obj 4 example_store) ! 9 = Vec [3]"
    unfolding example_s_forward_pass by (simp add: example_store_def)
  show ?thesis
    using l r forward_pass_loss_frame [of example_store example_obj1 4 example_net_obj 5
        "TVec [5]" example_obj2]
    by simp
qed

section \<open>float64: rounding, and the sign of the loss\<close>

lemma rne_of_int [simp]: "rne (of_int n) = n"
  by (simp add: rne_def)

lemma rne_lower: "of_int n \<le> q \<Longrightarrow> q < of_int n + 1/2 \<Longrightarrow> rne q = n"
proof -
  assume a: "of_int n \<le> q" "q < of_int n + 1/2"
  then have f: "\<lfloor>q\<rfloor> = n" by linarith
  show ?thesis using a by (simp add: rne_def f Let_def)
qed

lemma rne_upper: "of_int n - 1/2 < q \<Longrightarrow> q \<le> of_int n \<Longrightarrow> rne q = n"
proof (cases "q = of_int n")
  case True
  then show ?thesis by simp
next
  case False
  assume a: "of_int n - 1/2 < q" "q \<le> of_int n"
  with False have f: "\<lfloor>q\<rfloor> = n - 1" by linarith
  show ?thesis using a False by (simp add: rne_def f Let_def)
qed

lemma rne_nonneg: "0 \<le> q \<Longrightarrow> 0 \<le> rne q"
proof -
  assume "0 \<le> q"
  then have "0 \<le> \<lfloor>q\<rfloor>" by simp
  then show ?thesis by (simp add: rne_def Let_def)
qed

lemma two_powi_pos [simp]: "0 < (2::real) powi k"
  by (simp add: zero_less_power_int)

lemma two_powr_powi: "(2::real) powr real_of_int k = 2 powi k"
  by (simp add: powr_real_of_int')

lemma floor_log2_binade:
  assumes "2 powi e \<le> \<bar>x\<bar>" and "\<bar>x\<bar> < 2 powi (e + 1)"
  shows "\<lfloor>log 2 \<bar>x\<bar>\<rfloor> = e"
proof -
  have "0 < (2::real) powi e" by (rule two_powi_pos)
  then have pos: "0 < \<bar>x\<bar>" using assms(1) by linarith
  have "2 powr real_of_int e \<le> \<bar>x\<bar> \<and> \<bar>x\<bar> < 2 powr real_of_int (e + 1)"
    unfolding two_powr_powi using assms by simp
  then show ?thesis using pos by (subst floor_log_eq_powr_iff) simp_all
qed

lemma round_real_binade:
  assumes "2 powi e \<le> \<bar>x\<bar>" and "\<bar>x\<bar> < 2 powi (e + 1)" and "-1022 \<le> e"
  shows "round_real x = of_int (rne (x / 2 powi (e - 52))) * 2 powi (e - 52)"
proof -
  have "0 < (2::real) powi e" by (rule two_powi_pos)
  then have "0 < \<bar>x\<bar>" using assms(1) by linarith
  then have "x \<noteq> 0" by auto
  moreover have "ulp_exponent x = e - 52"
    using assms(3) by (simp add: ulp_exponent_def floor_log2_binade[OF assms(1,2)])
  ultimately show ?thesis by (simp add: round_real_def)
qed

lemma round_real_subnormal:
  assumes "x \<noteq> 0" and "\<bar>x\<bar> < 2 powi (-1022)"
  shows "round_real x = of_int (rne (x / 2 powi (-1074))) * 2 powi (-1074)"
proof -
  have pos: "0 < \<bar>x\<bar>" using assms(1) by simp
  have "\<bar>x\<bar> < 2 powr real_of_int (-1022)"
    unfolding two_powr_powi using assms(2) .
  then have "log 2 \<bar>x\<bar> < real_of_int (-1022)"
    using pos by (subst log_less_iff) simp_all
  then have "\<lfloor>log 2 \<bar>x\<bar>\<rfloor> \<le> -1022" by linarith
  then have "ulp_exponent x = -1074" by (simp add: ulp_exponent_def)
  then show ?thesis using assms(1) by (simp add: round_real_def)
qed

lemma round_real_nonneg: "0 \<le> x \<Longrightarrow> 0 \<le> round_real x"
  by (simp add: round_real_def rne_nonneg)

lemma round64_nonneg: "0 \<le> x \<Longrightarrow> f64_nonneg (round64 x)"
proof -
  assume "0 \<le> x"
  then have r: "0 \<le> round_real x" by (rule round_real_nonneg)
  have "0 \<le> max_float" by (simp add: max_float_def)
  then show ?thesis using r by (simp add: round64_def Let_def)
qed

lemma round_real_down:
  assumes "2 powi e \<le> \<bar>x\<bar>" and "\<bar>x\<bar> < 2 powi (e + 1)" and "-1022 \<le> e"
    and "of_int n \<le> x * 2 powi (52 - e)" and "x * 2 powi (52 - e) < of_int n + 1/2"
  shows "round_real x = of_int n / 2 powi (52 - e)"
proof -
  have q: "x / 2 powi (e - 52) = x * 2 powi (52 - e)"
    using power_int_minus[of "2::real" "e - 52"] by (simp add: field_simps)
  have i: "(2::real) powi (e - 52) = 1 / 2 powi (52 - e)"
    using power_int_minus[of "2::real" "52 - e"] by (simp add: field_simps)
  have "rne (x / 2 powi (e - 52)) = n"
    unfolding q using assms(4,5) by (rule rne_lower)
  then show ?thesis
    using round_real_binade[OF assms(1-3)] i by simp
qed

lemma round_real_up:
  assumes "2 powi e \<le> \<bar>x\<bar>" and "\<bar>x\<bar> < 2 powi (e + 1)" and "-1022 \<le> e"
    and "of_int n - 1/2 < x * 2 powi (52 - e)" and "x * 2 powi (52 - e) \<le> of_int n"
  shows "round_real x = of_int n / 2 powi (52 - e)"
proof -
  have q: "x / 2 powi (e - 52) = x * 2 powi (52 - e)"
    using power_int_minus[of "2::real" "e - 52"] by (simp add: field_simps)
  have i: "(2::real) powi (e - 52) = 1 / 2 powi (52 - e)"
    using power_int_minus[of "2::real" "52 - e"] by (simp add: field_simps)
  have "rne (x / 2 powi (e - 52)) = n"
    unfolding q using assms(4,5) by (rule rne_upper)
  then show ?thesis
    using round_real_binade[OF assms(1-3)] i by simp
qed

lemma round64_finite:
  "- max_float \<le> round_real x \<Longrightarrow> round_real x \<le> max_float \<Longrightarrow> round64 x = Finite (round_real x)"
  by (simp add: round64_def Let_def)

lemma max_float_big: "4 \<le> max_float"
proof -
  have "(4::real) \<le> (2 ^ 53 - 1) * 1" by simp
  also have "\<dots> \<le> (2 ^ 53 - 1) * 2 ^ 971"
    by (intro mult_left_mono) simp_all
  finally show ?thesis by (simp add: max_float_def)
qed

lemma round64_small:
  "\<bar>round_real x\<bar> \<le> 4 \<Longrightarrow> round64 x = Finite (round_real x)"
  using max_float_big by (intro round64_finite) linarith+

lemma round64_down:
  assumes "2 powi e \<le> \<bar>x\<bar>" and "\<bar>x\<bar> < 2 powi (e + 1)" and "-1022 \<le> e"
    and "of_int n \<le> x * 2 powi (52 - e)" and "x * 2 powi (52 - e) < of_int n + 1/2"
    and "\<bar>of_int n / 2 powi (52 - e)\<bar> \<le> (4::real)"
  shows "round64 x = Finite (of_int n / 2 powi (52 - e))"
  using round64_small[of x] assms(6) unfolding round_real_down[OF assms(1-5)] by simp

lemma round64_up:
  assumes "2 powi e \<le> \<bar>x\<bar>" and "\<bar>x\<bar> < 2 powi (e + 1)" and "-1022 \<le> e"
    and "of_int n - 1/2 < x * 2 powi (52 - e)" and "x * 2 powi (52 - e) \<le> of_int n"
    and "\<bar>of_int n / 2 powi (52 - e)\<bar> \<le> (4::real)"
  shows "round64 x = Finite (of_int n / 2 powi (52 - e))"
  using round64_small[of x] assms(6) unfolding round_real_up[OF assms(1-5)] by simp

lemma ln_one_plus_lower: 
  assumes "0 \<le> (v::real)"
  shows "v - v\<^sup>2 / 2 \<le> ln (1 + v)"
proof -
  let ?g = "\<lambda>x::real. ln (1 + x) - x + x\<^sup>2 / 2"
  have "?g 0 \<le> ?g v"
  proof (rule DERIV_nonneg_imp_nondecreasing[OF assms])
    fix x :: real assume x: "0 \<le> x" "x \<le> v"
    have "(?g has_real_derivative (1 / (1 + x) - 1 + x)) (at x)"
      using x by (auto intro!: derivative_eq_intros simp: field_simps)
    moreover have "0 \<le> 1 / (1 + x) - 1 + x"
    proof -
      have "1 / (1 + x) - 1 + x = x\<^sup>2 / (1 + x)"
        using x by (simp add: field_simps power2_eq_square)
      then show ?thesis using x by simp
    qed
    ultimately show "\<exists>y. (?g has_real_derivative y) (at x) \<and> 0 \<le> y" by blast
  qed
  then show ?thesis by simp
qed

lemma ln_one_plus_upper: 
  assumes "0 \<le> (v::real)"
  shows "ln (1 + v) \<le> v - v\<^sup>2 / 2 + v ^ 3 / 3"
proof -
  let ?g = "\<lambda>x::real. x - x\<^sup>2 / 2 + x ^ 3 / 3 - ln (1 + x)"
  have "?g 0 \<le> ?g v"
  proof (rule DERIV_nonneg_imp_nondecreasing[OF assms])
    fix x :: real assume x: "0 \<le> x" "x \<le> v"
    have "(?g has_real_derivative (1 - x + x\<^sup>2 - 1 / (1 + x))) (at x)"
      using x by (auto intro!: derivative_eq_intros simp: field_simps)
    moreover have "0 \<le> 1 - x + x\<^sup>2 - 1 / (1 + x)"
    proof -
      have "1 - x + x\<^sup>2 - 1 / (1 + x) = x ^ 3 / (1 + x)"
        using x by (simp add: field_simps power2_eq_square power3_eq_cube)
      then show ?thesis using x by simp
    qed
    ultimately show "\<exists>y. (?g has_real_derivative y) (at x) \<and> 0 \<le> y" by blast
  qed
  then show ?thesis by simp
qed

lemma exp_small_bounds:
  "1 + 1/2^30 \<le> exp (1/2^30 :: real) \<and> exp (1/2^30 :: real) \<le> 1 + 1/2^30 + 1/2^60"
proof -
  have "1 + 1/2^30 \<le> exp (1/2^30 :: real)" by (rule exp_ge_add_one_self)
  moreover have "exp (1/2^30 :: real) \<le> 1 + 1/2^30 + (1/2^30)\<^sup>2"
    by (rule exp_bound) simp_all
  moreover have "((1::real)/2^30)\<^sup>2 = 1/2^60" by (simp add: power2_eq_square)
  ultimately show ?thesis by simp
qed

lemma fexp_small: "fexp (Finite (1/2^30)) = Finite (1 + 1/2^30)"
proof -
  let ?x = "exp (1/2^30 :: real)"
  note b = exp_small_bounds
  have "round64 ?x = Finite (of_int (2^52 + 2^22) / 2 powi (52 - 0))"
  proof (rule round64_down)
    show "2 powi 0 \<le> \<bar>?x\<bar>" using b by simp
    show "\<bar>?x\<bar> < 2 powi (0 + 1)" using b by simp
    show "(-1022::int) \<le> 0" by simp
    show "real_of_int (2^52 + 2^22) \<le> ?x * 2 powi (52 - 0)" using b by simp
    show "?x * 2 powi (52 - 0) < real_of_int (2^52 + 2^22) + 1/2" using b by simp
    show "\<bar>real_of_int (2^52 + 2^22) / 2 powi (52 - 0)\<bar> \<le> 4" by simp
  qed
  then show ?thesis by simp
qed

lemma round64_one_plus: "round64 (1 + 1/2^30) = Finite (1 + 1/2^30)"
proof -
  have "round64 (1 + 1/2^30) = Finite (of_int (2^52 + 2^22) / 2 powi (52 - 0))"
    by (rule round64_down) simp_all
  then show ?thesis by simp
qed

lemma ln_small_bounds:
  "1/2^30 - 1/2^61 \<le> ln (1 + 1/2^30 :: real) \<and>
   ln (1 + 1/2^30 :: real) \<le> 1/2^30 - 1/2^61 + 1/2^90"
proof -
  have "(1/2^30 :: real) - (1/2^30)\<^sup>2 / 2 \<le> ln (1 + 1/2^30)"
    by (rule ln_one_plus_lower) simp
  moreover have "ln (1 + 1/2^30 :: real) \<le> 1/2^30 - (1/2^30)\<^sup>2 / 2 + (1/2^30) ^ 3 / 3"
    by (rule ln_one_plus_upper) simp
  moreover have "((1::real)/2^30)\<^sup>2 / 2 = 1/2^61" by (simp add: power2_eq_square)
  moreover have "((1::real)/2^30) ^ 3 / 3 \<le> 1/2^90" by (simp add: power3_eq_cube)
  ultimately show ?thesis by linarith
qed

lemma flog_small:
  "f64_math_log (Finite (1 + 1/2^30)) = Inr (Finite (1/2^30 - 1/2^61))"
proof -
  let ?y = "ln (1 + 1/2^30 :: real)"
  note b = ln_small_bounds
  have "round64 ?y = Finite (of_int (2^53 - 2^22) / 2 powi (52 - (-31)))"
  proof (rule round64_down)
    show "2 powi (-31) \<le> \<bar>?y\<bar>" using b by simp
    show "\<bar>?y\<bar> < 2 powi (-31 + 1)" using b by simp
    show "(-1022::int) \<le> -31" by simp
    show "real_of_int (2^53 - 2^22) \<le> ?y * 2 powi (52 - (-31))" using b by simp
    show "?y * 2 powi (52 - (-31)) < real_of_int (2^53 - 2^22) + 1/2" using b by simp
    show "\<bar>real_of_int (2^53 - 2^22) / 2 powi (52 - (-31))\<bar> \<le> 4" by simp
  qed
  then show ?thesis by simp
qed

lemma round64_neg_small: "round64 (- (1/2^61)) = Finite (- (1/2^61))"
proof -
  have "round64 (- (1/2^61)) = Finite (of_int (- (2^52)) / 2 powi (52 - (-61)))"
    by (rule round64_down) simp_all
  then show ?thesis by simp
qed

lemma f64_cross_entropy_negative:
  "f64_CrossEntropyLoss_loss [Finite (1/2^30)] (FIdx 0) = Inr (Finite (- (1/2^61)))"
  using fexp_small round64_one_plus flog_small round64_neg_small
  by (simp add: f64_CrossEntropyLoss_loss_def f64_np_index_def f64_np_sum_def)

lemma exp_minus_1000: "0 < exp (-1000::real) \<and> exp (-1000::real) < 1 / 2 ^ 1076"
proof -
  have "(5/2::real) = 1 + 1 + 1\<^sup>2 / 2" by simp
  also have "\<dots> \<le> exp 1" by (rule exp_lower_Taylor_quadratic) simp
  finally have e1: "(5/2::real) \<le> exp 1" .
  have "(2::real) ^ 5 \<le> (5/2) ^ 4" by (simp add: power_divide)
  also have "\<dots> \<le> exp 1 ^ 4" using e1 by (intro power_mono) simp_all
  also have "\<dots> = exp (of_nat 4 * 1 :: real)" by (rule exp_of_nat_mult[symmetric])
  finally have e4: "(2::real) ^ 5 \<le> exp 4" by simp
  have "(2::real) ^ 1076 < 2 ^ (5 * 250)" by (rule power_strict_increasing) simp_all
  also have "\<dots> = ((2::real) ^ 5) ^ 250" by (rule power_mult)
  also have "\<dots> \<le> exp 4 ^ 250" using e4 by (rule power_mono) simp
  also have "\<dots> = exp (of_nat 250 * 4 :: real)" by (rule exp_of_nat_mult[symmetric])
  finally have big: "(2::real) ^ 1076 < exp 1000" by simp
  have "exp (-1000::real) = 1 / exp 1000" by (simp add: exp_minus inverse_eq_divide)
  also have "\<dots> < 1 / 2 ^ 1076"
    using big by (rule divide_strict_left_mono) simp_all
  finally show ?thesis by simp
qed

lemma fexp_underflow: "fexp (Finite (-1000)) = Finite 0"
proof -
  let ?x = "exp (-1000::real)"
  note b = exp_minus_1000
  have "(1::real) / 2 ^ 1076 < 1 / 2 ^ 1022" by simp
  then have s: "\<bar>?x\<bar> < 2 powi (-1022)" using b by (simp add: power_int_minus_divide)
  have "rne (?x / 2 powi (-1074)) = 0"
  proof (rule rne_lower)
    show "real_of_int 0 \<le> ?x / 2 powi (-1074)" by simp
    have "?x * 2 ^ 1074 < 1 / 2 ^ 1076 * 2 ^ 1074"
      using b by (intro mult_strict_right_mono) simp_all
    then show "?x / 2 powi (-1074) < real_of_int 0 + 1/2"
      by (simp add: power_int_minus_divide)
  qed
  then have "round_real ?x = 0"
    using round_real_subnormal[OF _ s] by simp
  then show ?thesis by (simp add: round64_def max_float_def)
qed

lemma f64_cross_entropy_raises:
  "f64_CrossEntropyLoss_loss [Finite (-1000)] (FIdx 0) = Inl ValueError"
proof -
  have "round64 0 = Finite 0" by (simp add: round64_def round_real_def max_float_def)
  then show ?thesis
    using fexp_underflow
    by (simp add: f64_CrossEntropyLoss_loss_def f64_np_index_def f64_np_sum_def)
qed

lemma fadd_nonneg: "f64_nonneg a \<Longrightarrow> f64_nonneg b \<Longrightarrow> f64_nonneg (fadd a b)"
  by (cases a; cases b) (simp_all add: round64_nonneg)

lemma foldl_fadd_nonneg:
  "f64_nonneg a \<Longrightarrow> list_all f64_nonneg v \<Longrightarrow> f64_nonneg (foldl fadd a v)"
  by (induction v arbitrary: a) (simp_all add: fadd_nonneg)

lemma f64_np_sum_nonneg: "list_all f64_nonneg v \<Longrightarrow> f64_nonneg (f64_np_sum v)"
  unfolding f64_np_sum_def by (rule foldl_fadd_nonneg) simp_all

lemma f64_np_mean_nonneg:
  "v \<noteq> [] \<Longrightarrow> list_all f64_nonneg v \<Longrightarrow> f64_nonneg (f64_np_mean v)"
proof -
  assume ne: "v \<noteq> []" and a: "list_all f64_nonneg v"
  have s: "f64_nonneg (f64_np_sum v)" using a by (rule f64_np_sum_nonneg)
  have n: "0 < real (length v)" using ne by simp
  show ?thesis
  proof (cases "f64_np_sum v")
    case (Finite x)
    then have "0 \<le> x / real (length v)" using s by simp
    then show ?thesis using Finite n by (simp add: f64_np_mean_def round64_nonneg)
  qed (use s in \<open>simp_all add: f64_np_mean_def signed_inf_def\<close>)
qed

lemma fsub_finite: "is_finite a \<Longrightarrow> is_finite b \<Longrightarrow> fsub a b \<noteq> NaN"
  by (cases a; cases b) (simp_all add: fsub_def round64_def Let_def)

lemma fmul_self_nonneg: "a \<noteq> NaN \<Longrightarrow> f64_nonneg (fmul a a)"
  by (cases a) (simp_all add: round64_nonneg)

lemma f64_MSELoss_loss_nonneg:
  assumes "vs \<noteq> []" and "length expected = length vs"
    and "list_all is_finite vs" and "list_all is_finite expected"
  shows "\<exists>r. f64_MSELoss_loss vs (FVec expected) = Inr r \<and> f64_nonneg r"
proof -
  let ?d = "map2 fsub vs expected"
  have ne: "map (\<lambda>v. fmul v v) ?d \<noteq> []"
    using assms(1,2) by (cases "vs"; cases expected) simp_all
  have "\<forall>(a, b) \<in> set (zip vs expected). is_finite a \<and> is_finite b"
    using assms(3,4) by (auto simp: list_all_iff dest: set_zip_leftD set_zip_rightD)
  then have "list_all (\<lambda>d. d \<noteq> NaN) ?d"
    by (auto simp: list_all_iff fsub_finite)
  then have "list_all f64_nonneg (map (\<lambda>v. fmul v v) ?d)"
    by (auto simp: list_all_iff fmul_self_nonneg)
  then have "f64_nonneg (f64_np_mean (map (\<lambda>v. fmul v v) ?d))"
    using ne by (intro f64_np_mean_nonneg)
  then show ?thesis
    using assms(2) by (simp add: f64_MSELoss_loss_def f64_np_sub_def f64_np_bcast_def)
qed

text \<open>
  Claim C7, as stated: the cross-entropy loss is non-negative for every output vector and
  valid class index. In float64, for the output \<open>[2\<^sup>-\<^sup>3\<^sup>0]\<close> and the index 0, \<open>np.exp\<close>
  returns \<open>1 + 2\<^sup>-\<^sup>3\<^sup>0\<close>, \<open>math.log\<close> of it returns \<open>2\<^sup>-\<^sup>3\<^sup>0 - 2\<^sup>-\<^sup>6\<^sup>1\<close>, and the loss is
  \<open>-2\<^sup>-\<^sup>6\<^sup>1\<close>, a negative number. For the output \<open>[-1000]\<close> the exponential underflows
  to 0 and \<open>math.log(0.0)\<close> raises ValueError.
\<close>

theorem f64_loss_negative_counterexample:
  "f64_CrossEntropyLoss_loss [Finite (1/2^30)] (FIdx 0) = Inr (Finite (- (1/2^61))) \<and>
   \<not> f64_nonneg (Finite (- (1/2^61))) \<and>
   f64_CrossEntropyLoss_loss [Finite (-1000)] (FIdx 0) = Inl ValueError"
  using f64_cross_entropy_negative f64_cross_entropy_raises by simp

text \<open>
  Claim C7, amended. For every output vector with at least one entry and every target
  vector of the same shape, both of finite numbers, the mean squared error computed in
  float64 is a non-negative number or \<open>+inf\<close>. In exact real arithmetic the mean squared
  error against a target vector of the same shape, and the cross-entropy against a valid
  class index, are non-negative numbers.
\<close>

theorem loss_nonneg:
  "(fs \<noteq> [] \<and> length ft = length fs \<and> list_all is_finite fs \<and> list_all is_finite ft \<longrightarrow>
      (\<exists>r. f64_MSELoss_loss fs (FVec ft) = Inr r \<and> f64_nonneg r)) \<and>
   (vs \<noteq> [] \<and> length expected = length vs \<longrightarrow>
      (\<exists>r. MSELoss_loss vs (TVec expected) = Inr (Some r) \<and> 0 \<le> r)) \<and>
   (np_index vs t = Inr k \<longrightarrow>
      (\<exists>r. CrossEntropyLoss_loss vs (TIdx t) = Inr (Some r) \<and> 0 \<le> r))"
proof (intro conjI impI)
  assume "fs \<noteq> [] \<and> length ft = length fs \<and> list_all is_finite fs \<and> list_all is_finite ft"
  then show "\<exists>r. f64_MSELoss_loss fs (FVec ft) = Inr r \<and> f64_nonneg r"
    by (intro f64_MSELoss_loss_nonneg) simp_all
next
  assume h: "vs \<noteq> [] \<and> length expected = length vs"
  have "0 \<le> sum_list (map (\<lambda>v. v ^ 2) (map2 (-) vs expected))"
    by (rule sum_list_nonneg) auto
  then have "0 \<le> sum_list (map (\<lambda>v. v ^ 2) (map2 (-) vs expected)) /
                 real (length (map (\<lambda>v. v ^ 2) (map2 (-) vs expected)))"
    by simp
  moreover have "map2 (-) vs expected \<noteq> []"
    using h by (cases "vs"; cases expected) simp_all
  ultimately show "\<exists>r. MSELoss_loss vs (TVec expected) = Inr (Some r) \<and> 0 \<le> r"
    using h by (simp add: MSELoss_loss_def np_sub_def np_bcast_def np_mean_def)
next
  assume h: "np_index vs t = Inr k"
  then have k: "k < length vs" by (rule np_index_less)
  then have ne: "vs \<noteq> []" by auto
  have pos: "0 < (\<Sum>c\<leftarrow>vs. exp c)" using ne by (rule sum_exp_pos)
  have "exp (vs ! k) \<le> (\<Sum>c\<leftarrow>vs. exp c)" using k by (rule exp_le_sum_exp)
  then have "ln (exp (vs ! k)) \<le> ln (\<Sum>c\<leftarrow>vs. exp c)"
    using pos by (subst ln_le_cancel_iff) simp_all
  then have "0 \<le> - (vs ! k) + ln (\<Sum>c\<leftarrow>vs. exp c)" by simp
  then show "\<exists>r. CrossEntropyLoss_loss vs (TIdx t) = Inr (Some r) \<and> 0 \<le> r"
    using h pos by (simp add: CrossEntropyLoss_loss_def math_log_def)
qed

theorem loss_nonneg_witness:
  "([Finite 1, Finite 2] \<noteq> [] \<and> length [Finite 3, Finite 5] = length [Finite 1, Finite 2] \<and>
    list_all is_finite [Finite 1, Finite 2] \<and> list_all is_finite [Finite 3, Finite 5]) \<and>
   (\<exists>r. f64_MSELoss_loss [Finite 1, Finite 2] (FVec [Finite 3, Finite 5]) = Inr r \<and>
        f64_nonneg r) \<and>
   ([1, 2] \<noteq> ([]::vec) \<and> length [3, 5 :: real] = length [1, 2 :: real]) \<and>
   (\<exists>r. MSELoss_loss [1, 2] (TVec [3, 5]) = Inr (Some r) \<and> 0 \<le> r) \<and>
   np_index [0, 0] 1 = Inr 1 \<and>
   (\<exists>r. CrossEntropyLoss_loss [0, 0] (TIdx 1) = Inr (Some r) \<and> 0 \<le> r)"
proof -
  have h: "np_index [0, 0] 1 = Inr 1" by (simp add: np_index_def)
  show ?thesis
    using h loss_nonneg [where fs="[Finite 1, Finite 2]" and ft="[Finite 3, Finite 5]"
        and vs="[1, 2]" and expected="[3, 5]"]
      loss_nonneg [where vs="[0, 0]" and t=1 and k=1]
    by simp
qed

end
